theory Spec2Isabelle
  imports Complex_Main
begin

section \<open>Numbers\<close>

text \<open>
  A JavaScript \<open>number\<close> is modelled as a \<open>real\<close>: arithmetic is exact, and the
  values \<open>NaN\<close> and \<open>Infinity\<close> do not exist. Every division of the modelled code is
  guarded by the source (\<open>V ? ... : 0\<close>, \<open>max == min\<close>) or divides by a constant,
  the divisions by \<open>precision\<close> apart: they are evaluated only inside loops that run
  when \<open>precision\<close> is at least 1.

  The source computes in doubles, which round. An equation that holds only because
  the arithmetic is exact is therefore not a fact about the program: \<open>hslToHsv\<close> after
  \<open>hsvToHsl\<close>, say, gives back the HSV it started from over the reals, and
  \<open>60.00000000000001\<close> for the saturation \<open>60\<close> in the program. The theorems below say
  which conversions are applied to which value, in which order, or are evaluated at
  inputs where the doubles are exact (black, pure red, the random value 0, sixteenths).
\<close>

definition Math_round :: "real \<Rightarrow> int" where
  "Math_round x = \<lfloor>x + 1 / 2\<rfloor>"

definition Math_floor :: "real \<Rightarrow> int" where
  "Math_floor x = \<lfloor>x\<rfloor>"

definition js_trunc :: "real \<Rightarrow> int" where
  "js_trunc x = (if x < 0 then \<lceil>x\<rceil> else \<lfloor>x\<rfloor>)"

text \<open>The operator \<open>%\<close>: the remainder has the sign of the dividend.\<close>

definition js_rem :: "real \<Rightarrow> real \<Rightarrow> real" where
  "js_rem x y = x - y * of_int (js_trunc (x / y))"

section \<open>ColorModel\<close>

record RGBColor =
  rgb_r :: real
  rgb_g :: real
  rgb_b :: real

record HSLColor =
  hsl_h :: real
  hsl_s :: real
  hsl_l :: real

record HSVColor =
  hsv_h :: real
  hsv_s :: real
  hsv_v :: real

record ColorModel =
  hex :: string
  rgb :: RGBColor
  hsl :: HSLColor
  hsv :: HSVColor

subsection \<open>HEX and RGB\<close>

definition digitChar :: "nat \<Rightarrow> char" where
  "digitChar n = ''0123456789abcdef'' ! (n mod 16)"

fun hexDigits :: "nat \<Rightarrow> string" where
  "hexDigits n = (if n < 16 then [digitChar n] else hexDigits (n div 16) @ [digitChar (n mod 16)])"

declare hexDigits.simps [simp del]

text \<open>\<open>Number.prototype.toString(16)\<close> on an integer.\<close>

definition toString16 :: "int \<Rightarrow> string" where
  "toString16 n = (if n < 0 then CHR ''-'' # hexDigits (nat (- n)) else hexDigits (nat n))"

definition toHex :: "real \<Rightarrow> string" where
  "toHex x = (let h = toString16 (Math_round x) in if length h = 1 then CHR ''0'' # h else h)"

definition rgbToHex :: "RGBColor \<Rightarrow> string" where
  "rgbToHex c = CHR ''#'' # toHex (rgb_r c) @ toHex (rgb_g c) @ toHex (rgb_b c)"

text \<open>The character class \<open>[a-f\d]\<close> under the flag \<open>i\<close>.\<close>

definition isHexDigit :: "char \<Rightarrow> bool" where
  "isHexDigit c = (c \<in> set ''0123456789abcdefABCDEF'')"

definition hexDigitValue :: "char \<Rightarrow> nat" where
  "hexDigitValue c =
     (if c \<in> set ''0123456789'' then of_char c - 48
      else if c \<in> set ''abcdef'' then of_char c - 87
      else of_char c - 55)"

text \<open>\<open>parseInt(s, 16)\<close> on a string of hex digits.\<close>

definition parseInt16 :: "string \<Rightarrow> nat" where
  "parseInt16 s = foldl (\<lambda>a c. 16 * a + hexDigitValue c) 0 s"

text \<open>
  The pattern \<open>/^#?([a-f\d]{2})([a-f\d]{2})([a-f\d]{2})$/i\<close>: the three groups of a match,
  or \<open>None\<close> for \<open>null\<close>. A leading \<open>#\<close> is never a hex digit, so taking it whenever
  it is there is all the backtracking of \<open>#?\<close> can find.
\<close>

definition hexPattern :: "string \<Rightarrow> (string \<times> string \<times> string) option" where
  "hexPattern s =
     (let t = (case s of [] \<Rightarrow> s | c # cs \<Rightarrow> if c = CHR ''#'' then cs else s) in
      if length t = 6 \<and> list_all isHexDigit t
      then Some (take 2 t, take 2 (drop 2 t), take 2 (drop 4 t))
      else None)"

definition hexToRgb :: "string \<Rightarrow> RGBColor" where
  "hexToRgb hexCode =
     (case hexPattern hexCode of
        Some (g1, g2, g3) \<Rightarrow>
          \<lparr>rgb_r = real (parseInt16 g1), rgb_g = real (parseInt16 g2), rgb_b = real (parseInt16 g3)\<rparr>
      | None \<Rightarrow> \<lparr>rgb_r = 0, rgb_g = 0, rgb_b = 0\<rparr>)"

subsection \<open>RGB and HSL\<close>

definition rgbToHsl :: "RGBColor \<Rightarrow> HSLColor" where
  "rgbToHsl c =
     (let r = rgb_r c / 255; g = rgb_g c / 255; b = rgb_b c / 255;
          mx = max r (max g b); mn = min r (min g b);
          l = (mx + mn) / 2;
          (h, s) =
            (if mx = mn then (0, 0)
             else
               (let d = mx - mn;
                    s = (if l > 1 / 2 then d / (2 - mx - mn) else d / (mx + mn));
                    h = (if mx = r then (g - b) / d + (if g < b then 6 else 0)
                         else if mx = g then (b - r) / d + 2
                         else (r - g) / d + 4)
                in (h / 6, s)))
      in \<lparr>hsl_h = of_int (Math_floor (h * 360)),
          hsl_s = of_int (Math_floor (s * 100)),
          hsl_l = of_int (Math_floor (l * 100))\<rparr>)"

definition hue2rgb :: "real \<Rightarrow> real \<Rightarrow> real \<Rightarrow> real" where
  "hue2rgb p2 q2 t0 =
     (let t1 = (if t0 < 0 then t0 + 1 else t0);
          t = (if t1 > 1 then t1 - 1 else t1)
      in if t < 1 / 6 then p2 + (q2 - p2) * 6 * t
         else if t < 1 / 2 then q2
         else if t < 2 / 3 then p2 + (q2 - p2) * (2 / 3 - t) * 6
         else p2)"

definition hslToRgb :: "HSLColor \<Rightarrow> RGBColor" where
  "hslToRgb c =
     (let h = hsl_h c / 360; s = hsl_s c / 100; l = hsl_l c / 100;
          out =
            (if s = 0 then \<lparr>rgb_r = l, rgb_g = l, rgb_b = l\<rparr>
             else
               (let q = (if l < 1 / 2 then l * (1 + s) else l + s - l * s);
                    p = 2 * l - q
                in \<lparr>rgb_r = hue2rgb p q (h + 1 / 3),
                    rgb_g = hue2rgb p q h,
                    rgb_b = hue2rgb p q (h - 1 / 3)\<rparr>))
      in \<lparr>rgb_r = rgb_r out * 255, rgb_g = rgb_g out * 255, rgb_b = rgb_b out * 255\<rparr>)"

subsection \<open>HSL and HSV\<close>

definition hslToHsv :: "HSLColor \<Rightarrow> HSVColor" where
  "hslToHsv c =
     (let L = hsl_l c / 100;
          V = hsl_s c / 100 * min L (1 - L) + L
      in \<lparr>hsv_h = hsl_h c,
          hsv_s = (if V \<noteq> 0 then 100 * (2 - 2 * L / V) else 0),
          hsv_v = V * 100\<rparr>)"

definition hsvToHsl :: "HSVColor \<Rightarrow> HSLColor" where
  "hsvToHsl c =
     (let V = hsv_v c / 100;
          L = V - V * hsv_s c / 200;
          m = min L (1 - L)
      in \<lparr>hsl_h = hsv_h c,
          hsl_s = (if m \<noteq> 0 then 100 * (V - L) / m else 0),
          hsl_l = L * 100\<rparr>)"

subsection \<open>The setters\<close>

text \<open>Each setter stores its argument and recomputes the other three fields, in the source's order.\<close>

definition set_hex :: "string \<Rightarrow> ColorModel \<Rightarrow> ColorModel" where
  "set_hex v c =
     (let c1 = c\<lparr>hex := v\<rparr>;
          c2 = c1\<lparr>rgb := hexToRgb v\<rparr>;
          c3 = c2\<lparr>hsl := rgbToHsl (rgb c2)\<rparr>
      in c3\<lparr>hsv := hslToHsv (hsl c3)\<rparr>)"

definition set_rgb :: "RGBColor \<Rightarrow> ColorModel \<Rightarrow> ColorModel" where
  "set_rgb v c =
     (let c1 = c\<lparr>rgb := v\<rparr>;
          c2 = c1\<lparr>hex := rgbToHex v\<rparr>;
          c3 = c2\<lparr>hsl := rgbToHsl v\<rparr>
      in c3\<lparr>hsv := hslToHsv (hsl c3)\<rparr>)"

definition set_hsl :: "HSLColor \<Rightarrow> ColorModel \<Rightarrow> ColorModel" where
  "set_hsl v c =
     (let c1 = c\<lparr>hsl := v\<rparr>;
          c2 = c1\<lparr>rgb := hslToRgb v\<rparr>;
          c3 = c2\<lparr>hex := rgbToHex (rgb c2)\<rparr>
      in c3\<lparr>hsv := hslToHsv v\<rparr>)"

definition set_hsv :: "HSVColor \<Rightarrow> ColorModel \<Rightarrow> ColorModel" where
  "set_hsv v c =
     (let c1 = c\<lparr>hsv := v\<rparr>;
          c2 = c1\<lparr>hsl := hsvToHsl v\<rparr>;
          c3 = c2\<lparr>rgb := hslToRgb (hsl c2)\<rparr>
      in c3\<lparr>hex := rgbToHex (rgb c3)\<rparr>)"

text \<open>
  \<open>new ColorModel(hexCode)\<close>: the four private fields are created empty and the hex
  setter fills all of them, so the record is built from the setter's values.
\<close>

definition newColorModel :: "string \<Rightarrow> ColorModel" where
  "newColorModel hexCode =
     (let c = hexToRgb hexCode; l = rgbToHsl c
      in \<lparr>hex = hexCode, rgb = c, hsl = l, hsv = hslToHsv l\<rparr>)"

subsection \<open>Utilities\<close>

definition equals :: "ColorModel \<Rightarrow> ColorModel \<Rightarrow> bool" where
  "equals c color = (hex c = hex color)"

text \<open>The conditional chain \<open>x > max ? max : x < min ? min : x\<close> shared by the adjusters.\<close>

definition limit :: "real \<Rightarrow> real \<Rightarrow> real \<Rightarrow> real" where
  "limit x mx mn = (if x > mx then mx else if x < mn then mn else x)"

text \<open>
  \<open>saturate\<close> writes the field \<open>s\<close> of the stored HSV object in place and then
  assigns \<open>this.hsl\<close>, which runs the HSL setter.
\<close>

definition saturate :: "real \<Rightarrow> real \<Rightarrow> real \<Rightarrow> ColorModel \<Rightarrow> ColorModel" where
  "saturate saturation mx mn c =
     (let currentSat = hsv_s (hsv c);
          c1 = c\<lparr>hsv := (hsv c)\<lparr>hsv_s := limit (currentSat + saturation) mx mn\<rparr>\<rparr>
      in set_hsl (hsvToHsl (hsv c1)) c1)"

text \<open>
  \<open>brighten\<close> writes the field \<open>l\<close> of the stored HSL object in place and then
  assigns \<open>this.hsl\<close> from the stored HSV.
\<close>

definition brighten :: "real \<Rightarrow> real \<Rightarrow> real \<Rightarrow> ColorModel \<Rightarrow> ColorModel" where
  "brighten brightness mx mn c =
     (let currentBrightness = hsv_v (hsv c);
          c1 = c\<lparr>hsl := (hsl c)\<lparr>hsl_l := limit (currentBrightness + brightness) mx mn\<rparr>\<rparr>
      in set_hsl (hsvToHsl (hsv c1)) c1)"

definition addToHue :: "real \<Rightarrow> real \<Rightarrow> real" where
  "addToHue h add =
     (if h + add > 360 then js_rem (h + add) 360
      else if h + add < 0 then 360 + h + add
      else h + add)"

section \<open>ColorPaletteGenerator\<close>

record ColorPalettes =
  base :: "ColorModel list"
  light :: "ColorModel list"
  dark :: "ColorModel list"

text \<open>
  The injected \<open>rand\<close> is a closure the generator can only call. It is modelled by the
  sequence of the values it returns, \<open>rand g\<close>, and the number of calls made so far,
  \<open>calls g\<close>: the \<open>k\<close>-th call returns \<open>rand g k\<close>. \<open>precision\<close> counts colours and
  is an integer.
\<close>

record ColorPaletteGenerator =
  rand :: "nat \<Rightarrow> real"
  calls :: nat
  precision :: int
  hueRange :: real
  baseColor :: ColorModel
  palettes :: ColorPalettes

record ColorPaletteParams =
  param_rand :: "nat \<Rightarrow> real"
  param_precision :: "int option"
  param_hueRange :: "real option"
  param_baseColor :: "string option"
  param_baseSaturation :: "real option"

text \<open>
  \<open>setBaseColor(baseColor = '#000000', baseSaturation = null)\<close>: an argument that is
  \<open>undefined\<close> takes its default, so \<open>baseSaturation\<close> is never \<open>undefined\<close> in the body
  and \<open>saturate\<close> always runs; \<open>null\<close> adds \<open>0\<close>.
\<close>

definition setBaseColor :: "string option \<Rightarrow> real option \<Rightarrow> ColorModel" where
  "setBaseColor bc bs =
     saturate (case bs of None \<Rightarrow> 0 | Some x \<Rightarrow> x) 100 0
       (newColorModel (case bc of None \<Rightarrow> ''#000000'' | Some h \<Rightarrow> h))"

text \<open>The two loops \<open>for (let i = 1; i <= this.precision; i++)\<close> of \<open>generateBasePalette\<close>.\<close>

function firstColors ::
  "ColorModel \<Rightarrow> int \<Rightarrow> real \<Rightarrow> real \<Rightarrow> real \<Rightarrow> int \<Rightarrow> ColorModel list \<Rightarrow> ColorModel list" where
  "firstColors bc prec hueStep endSaturation endValue i pal =
     (if i \<le> prec then
        (let color = newColorModel ''#000000'';
             h = addToHue (hsv_h (hsv bc)) (hueStep * of_int i);
             s = max 0 (min 100 (hsv_s (hsv bc) - (of_int i * (hsv_s (hsv bc) - endSaturation)) / of_int prec));
             v = max 0 (min 100 (hsv_v (hsv bc) + (of_int i * (endValue - hsv_v (hsv bc))) / of_int prec));
             color' = set_hsv \<lparr>hsv_h = h, hsv_s = s, hsv_v = v\<rparr> color
         in firstColors bc prec hueStep endSaturation endValue (i + 1) (color' # pal))
      else pal)"
  by pat_completeness auto
termination
  by (relation "measure (\<lambda>(bc, prec, hueStep, endSaturation, endValue, i, pal). nat (prec + 1 - i))") auto

function secondColors ::
  "ColorModel \<Rightarrow> int \<Rightarrow> real \<Rightarrow> real \<Rightarrow> real \<Rightarrow> int \<Rightarrow> ColorModel list \<Rightarrow> ColorModel list" where
  "secondColors bc prec hueStep endSaturation endValue i pal =
     (if i \<le> prec then
        (let color = newColorModel ''#000000'';
             h = addToHue (hsv_h (hsv bc)) (- hueStep * of_int i);
             s = max 0 (min 100 (hsv_s (hsv bc) + (of_int i * (endSaturation - hsv_s (hsv bc))) / of_int prec));
             v = max 0 (min 100 (hsv_v (hsv bc) - (of_int i * (hsv_v (hsv bc) - endValue)) / of_int prec));
             color' = set_hsv \<lparr>hsv_h = h, hsv_s = s, hsv_v = v\<rparr> color
         in secondColors bc prec hueStep endSaturation endValue (i + 1) (pal @ [color']))
      else pal)"
  by pat_completeness auto
termination
  by (relation "measure (\<lambda>(bc, prec, hueStep, endSaturation, endValue, i, pal). nat (prec + 1 - i))") auto

declare firstColors.simps [simp del] secondColors.simps [simp del]

definition generateBasePalette :: "ColorPaletteGenerator \<Rightarrow> ColorPaletteGenerator" where
  "generateBasePalette g =
     (let n = calls g;
          pal0 = base (palettes g) @ [baseColor g];
          hueStep = (hueRange g * (1 / 2)) / of_int (precision g);
          endSaturation = rand g n * 5 + 45 / 2;
          endValue = rand g (n + 1) * (15 / 2) + 90;
          pal1 = firstColors (baseColor g) (precision g) hueStep endSaturation endValue 1 pal0;
          endSaturation' = rand g (n + 2) * (15 / 2) + 90;
          endValue' = rand g (n + 3) * 5 + 45 / 2;
          pal2 = secondColors (baseColor g) (precision g) hueStep endSaturation' endValue' 1 pal1
      in g\<lparr>calls := n + 4, palettes := (palettes g)\<lparr>base := pal2\<rparr>\<rparr>)"

text \<open>
  The bodies of the loops over \<open>this.palettes.base\<close>: one colour is derived from the hex
  of each base colour and pushed, so each loop is a \<open>map\<close>.
\<close>

definition lightColor :: "real \<Rightarrow> real \<Rightarrow> real \<Rightarrow> ColorModel \<Rightarrow> ColorModel" where
  "lightColor hue saturation val b =
     (let color = newColorModel (hex b)
      in set_hsv \<lparr>hsv_h = addToHue (hsv_h (hsv color)) (- hue),
                  hsv_s = max 0 (min 100 (hsv_s (hsv color) - saturation)),
                  hsv_v = max 0 (min 100 (hsv_v (hsv color) + val))\<rparr> color)"

definition darkColor :: "real \<Rightarrow> real \<Rightarrow> real \<Rightarrow> ColorModel \<Rightarrow> ColorModel" where
  "darkColor hue saturation val b =
     (let color = newColorModel (hex b)
      in set_hsv \<lparr>hsv_h = addToHue (hsv_h (hsv color)) hue,
                  hsv_s = max 0 (min 100 (hsv_s (hsv color) + saturation)),
                  hsv_v = max 0 (min 100 (hsv_v (hsv color) - val))\<rparr> color)"

definition generateLightPalette :: "ColorPaletteGenerator \<Rightarrow> ColorPaletteGenerator" where
  "generateLightPalette g =
     (let n = calls g;
          hue = rand g n * 5 + 15 / 2;
          saturation = rand g (n + 1) * (15 / 2) + 45 / 2;
          val = rand g (n + 2) * (15 / 2) + 55 / 2
      in g\<lparr>calls := n + 3,
           palettes := (palettes g)\<lparr>light := light (palettes g) @
              map (lightColor hue saturation val) (base (palettes g))\<rparr>\<rparr>)"

definition generateDarkPalette :: "ColorPaletteGenerator \<Rightarrow> ColorPaletteGenerator" where
  "generateDarkPalette g =
     (let n = calls g;
          hue = rand g n * 5 + 15 / 2;
          saturation = rand g (n + 1) * (15 / 2) + 45 / 2;
          val = rand g (n + 2) * (15 / 2) + 55 / 2
      in g\<lparr>calls := n + 3,
           palettes := (palettes g)\<lparr>dark := dark (palettes g) @
              map (darkColor hue saturation val) (base (palettes g))\<rparr>\<rparr>)"

definition generatePalettes :: "ColorPaletteGenerator \<Rightarrow> ColorPaletteGenerator" where
  "generatePalettes g =
     generateDarkPalette (generateLightPalette (generateBasePalette
       (g\<lparr>palettes := \<lparr>base = [], light = [], dark = []\<rparr>\<rparr>)))"

text \<open>
  The constructor: \<open>constructorState\<close> is the generator when control reaches
  \<open>this.generatePalettes()\<close>. \<open>if (baseColor)\<close> is false for \<open>undefined\<close> and for the
  empty string. Without a base colour the seed is drawn: the object literal evaluates
  \<open>h\<close>, \<open>s\<close>, \<open>v\<close> in this order, and \<open>s\<close> draws only when \<open>baseSaturation\<close> is
  \<open>undefined\<close>.
\<close>

definition constructorState :: "ColorPaletteParams \<Rightarrow> ColorPaletteGenerator" where
  "constructorState p =
     (let rnd = param_rand p;
          prec = (case param_precision p of None \<Rightarrow> 4 | Some x \<Rightarrow> x);
          range = (case param_hueRange p of None \<Rightarrow> 180 | Some x \<Rightarrow> x);
          (bc, n) =
            (if param_baseColor p \<noteq> None \<and> param_baseColor p \<noteq> Some []
             then (setBaseColor (param_baseColor p) (param_baseSaturation p), 0)
             else
               (let c = setBaseColor None None;
                    h = of_int (Math_round (rnd 0 * 100 * (18 / 5)));
                    (s, k) = (case param_baseSaturation p of
                                Some x \<Rightarrow> (x, 1)
                              | None \<Rightarrow> (of_int (Math_round (rnd 1 * 20 + 65)), 2));
                    v = of_int (Math_round (rnd k * 20 + 65))
                in (set_hsv \<lparr>hsv_h = h, hsv_s = s, hsv_v = v\<rparr> c, k + 1)))
      in \<lparr>rand = rnd, calls = n, precision = prec, hueRange = range, baseColor = bc,
          palettes = \<lparr>base = [], light = [], dark = []\<rparr>\<rparr>)"

definition newColorPaletteGenerator :: "ColorPaletteParams \<Rightarrow> ColorPaletteGenerator" where
  "newColorPaletteGenerator p = generatePalettes (constructorState p)"

definition fullPalette :: "ColorPaletteGenerator \<Rightarrow> ColorModel list" where
  "fullPalette g = light (palettes g) @ base (palettes g) @ dark (palettes g)"

subsection \<open>Selecting colours\<close>

text \<open>
  The options of \<open>getDistributedPalette\<close> and \<open>getRandomPalette\<close> as the package declares
  them; \<open>len\<close> is the option \<open>length\<close>, a number of colours.
\<close>

record DistributedOptions =
  len :: int
  includeBaseColor :: bool
  sortByBrightness :: bool
  minBrightness :: real
  maxBrightness :: real
  minSaturation :: real
  maxSaturation :: real

record RandomOptions = DistributedOptions +
  filterPasses :: bool

definition defaultDistributedOptions :: DistributedOptions where
  "defaultDistributedOptions =
     \<lparr>len = 4, includeBaseColor = False, sortByBrightness = True,
      minBrightness = 0, maxBrightness = 100, minSaturation = 0, maxSaturation = 100\<rparr>"

definition defaultRandomOptions :: RandomOptions where
  "defaultRandomOptions =
     \<lparr>len = 4, includeBaseColor = False, sortByBrightness = True,
      minBrightness = 0, maxBrightness = 100, minSaturation = 0, maxSaturation = 100,
      filterPasses = True\<rparr>"

text \<open>
  \<open>xs.sort(() => this.rand() - 0.5)\<close> leaves the order of the result, and the number of
  calls of the comparator, to the engine. The engine's sort is a parameter of the model:
  from the sequence of random values, the number of calls made so far and the array, it
  gives the array as sorted and the new number of calls.
\<close>

type_synonym engineSort = "(nat \<Rightarrow> real) \<Rightarrow> nat \<Rightarrow> ColorModel list \<Rightarrow> ColorModel list \<times> nat"

text \<open>An engine for evaluating the model: insertion sort, one comparator call per comparison.\<close>

fun insertRandom :: "(nat \<Rightarrow> real) \<Rightarrow> ColorModel \<Rightarrow> ColorModel list \<Rightarrow> nat \<Rightarrow> ColorModel list \<times> nat" where
  "insertRandom rs x [] n = ([x], n)"
| "insertRandom rs x (y # ys) n =
     (if rs n - 1 / 2 > 0
      then (let (zs, n') = insertRandom rs x ys (Suc n) in (y # zs, n'))
      else (x # y # ys, Suc n))"

fun insertionSort :: engineSort where
  "insertionSort rs n [] = ([], n)"
| "insertionSort rs n (x # xs) =
     (let (ys, n') = insertionSort rs n xs in insertRandom rs x ys n')"

text \<open>\<open>xs.sort((a, b) => a.hsv.v - b.hsv.v)\<close>: a consistent comparator, so the sort is stable and ascending.\<close>

definition sortBrightness :: "ColorModel list \<Rightarrow> ColorModel list" where
  "sortBrightness xs = sort_key (\<lambda>c. hsv_v (hsv c)) xs"

text \<open>\<open>xs.slice(0, n)\<close>; a negative \<open>n\<close> counts from the end.\<close>

definition slice0 :: "'a list \<Rightarrow> int \<Rightarrow> 'a list" where
  "slice0 xs n = (if n < 0 then take (nat (int (length xs) + n)) xs else take (nat n) xs)"

text \<open>\<open>xs.filter((c, index) => index % 2 === 1)\<close>\<close>

fun oddIndices :: "'a list \<Rightarrow> 'a list" where
  "oddIndices (x # y # zs) = y # oddIndices zs"
| "oddIndices _ = []"

text \<open>\<open>xs[0] = c\<close>: an empty array grows to length 1.\<close>

definition setFirst :: "'a list \<Rightarrow> 'a \<Rightarrow> 'a list" where
  "setFirst xs c = (case xs of [] \<Rightarrow> [c] | _ # ys \<Rightarrow> c # ys)"

text \<open>
  \<open>getRandomPalette\<close> as the TypeScript source has it: it destructures neither
  \<open>minBrightness\<close> nor \<open>maxBrightness\<close>.
\<close>

definition getRandomPalette ::
  "engineSort \<Rightarrow> ColorPaletteGenerator \<Rightarrow> RandomOptions \<Rightarrow> ColorModel list \<times> ColorPaletteGenerator" where
  "getRandomPalette engine g opts =
     (let n = (if len opts < 1 then 1 else len opts);
          p0 = fullPalette g;
          p1 = filter (\<lambda>c. hsv_s (hsv c) \<ge> minSaturation opts) p0;
          p2 = filter (\<lambda>c. hsv_s (hsv c) \<le> maxSaturation opts) p1;
          p3 = (if filterPasses opts \<and> precision g > 2 then oddIndices (oddIndices p2) else p2);
          (p4, k) = engine (rand g) (calls g) p3;
          p5 = slice0 p4 n;
          p6 = (if includeBaseColor opts
                then (if find (\<lambda>c. equals c (baseColor g)) p5 = None
                      then setFirst p5 (baseColor g) else p5)
                else p5);
          p7 = (if sortByBrightness opts then sortBrightness p6 else p6)
      in (p7, g\<lparr>calls := k\<rparr>))"

text \<open>
  The same method as the package's UMD bundle has it, with the two brightness filters
  before the saturation filters.
\<close>

definition getRandomPalette_umd ::
  "engineSort \<Rightarrow> ColorPaletteGenerator \<Rightarrow> RandomOptions \<Rightarrow> ColorModel list \<times> ColorPaletteGenerator" where
  "getRandomPalette_umd engine g opts =
     (let n = (if len opts < 1 then 1 else len opts);
          p0 = fullPalette g;
          q1 = filter (\<lambda>c. hsv_v (hsv c) \<ge> minBrightness opts) p0;
          q2 = filter (\<lambda>c. hsv_v (hsv c) \<le> maxBrightness opts) q1;
          p1 = filter (\<lambda>c. hsv_s (hsv c) \<ge> minSaturation opts) q2;
          p2 = filter (\<lambda>c. hsv_s (hsv c) \<le> maxSaturation opts) p1;
          p3 = (if filterPasses opts \<and> precision g > 2 then oddIndices (oddIndices p2) else p2);
          (p4, k) = engine (rand g) (calls g) p3;
          p5 = slice0 p4 n;
          p6 = (if includeBaseColor opts
                then (if find (\<lambda>c. equals c (baseColor g)) p5 = None
                      then setFirst p5 (baseColor g) else p5)
                else p5);
          p7 = (if sortByBrightness opts then sortBrightness p6 else p6)
      in (p7, g\<lparr>calls := k\<rparr>))"

text \<open>
  Errors of \<open>getDistributedPalette\<close>. An index outside the band reads \<open>undefined\<close>:
  calling \<open>equals\<close> on it throws a \<open>TypeError\<close>; pushing it gives a result that is not
  a palette, which the model reports as \<open>UndefinedColor\<close>. Neither happens while
  \<open>rand\<close> stays inside \<open>[0, 1)\<close>.
\<close>

datatype error = TypeError | UndefinedColor

definition getRandomIndex :: "real \<Rightarrow> 'a list \<Rightarrow> int" where
  "getRandomIndex x array = Math_floor (x * real (length array))"

definition elemAt :: "'a list \<Rightarrow> int \<Rightarrow> 'a option" where
  "elemAt xs i = (if 0 \<le> i \<and> i < int (length xs) then Some (xs ! nat i) else None)"

text \<open>
  The rejection loop \<open>while (index === null || indexes.includes(index) || (includeBaseColor &&
  band[index].equals(this.baseColor))) index = getRandomIndex(band)\<close>. It draws at least
  once; \<open>None\<close> is a loop that never ends.
\<close>

partial_function (option) pickIndex ::
  "(nat \<Rightarrow> real) \<Rightarrow> ColorModel list \<Rightarrow> int list \<Rightarrow> bool \<Rightarrow> ColorModel \<Rightarrow> nat \<Rightarrow> (error + int \<times> nat) option" where
  "pickIndex rs band indexes incl bc n =
     (let index = getRandomIndex (rs n) band in
      if index \<in> set indexes then pickIndex rs band indexes incl bc (Suc n)
      else if incl then
        (case elemAt band index of
           None \<Rightarrow> Some (Inl TypeError)
         | Some c \<Rightarrow>
             if equals c bc then pickIndex rs band indexes incl bc (Suc n)
             else Some (Inr (index, Suc n)))
      else Some (Inr (index, Suc n)))"

text \<open>
  The loop \<open>for (let i = 0; i < iterations; i++)\<close> around it, on the iterations left:
  it gives the colours pushed to \<open>returnedPalette\<close>, in order, and the number of calls
  of \<open>rand\<close>.
\<close>

fun sampleBand ::
  "(nat \<Rightarrow> real) \<Rightarrow> ColorModel list \<Rightarrow> bool \<Rightarrow> ColorModel \<Rightarrow> nat \<Rightarrow> int list \<Rightarrow> ColorModel list \<Rightarrow> nat
     \<Rightarrow> (error + ColorModel list \<times> nat) option" where
  "sampleBand rs band incl bc 0 indexes returned n = Some (Inr (returned, n))"
| "sampleBand rs band incl bc (Suc k) indexes returned n =
     (case pickIndex rs band indexes incl bc n of
        None \<Rightarrow> None
      | Some (Inl e) \<Rightarrow> Some (Inl e)
      | Some (Inr (index, n')) \<Rightarrow>
          (case elemAt band index of
             None \<Rightarrow> Some (Inl UndefinedColor)
           | Some c \<Rightarrow> sampleBand rs band incl bc k (indexes @ [index]) (returned @ [c]) n'))"

text \<open>
  The local constants of \<open>getDistributedPalette\<close>, as functions of what they are
  computed from: the target length after the base colour took its place, the palette
  left by the two saturation filters, its three bands, and the iterations of the three
  loops. \<open>nbColors\<close> counts the iterations of the first two loops.
\<close>

definition targetLength :: "DistributedOptions \<Rightarrow> int" where
  "targetLength opts = (if includeBaseColor opts then max 0 (len opts - 1) else len opts)"

definition saturationFiltered :: "ColorPaletteGenerator \<Rightarrow> DistributedOptions \<Rightarrow> ColorModel list" where
  "saturationFiltered g opts =
     (let f0 = fullPalette g;
          f1 = filter (\<lambda>c. hsv_s (hsv c) \<ge> minSaturation opts) f0
      in filter (\<lambda>c. hsv_s (hsv c) \<le> maxSaturation opts) f1)"

definition darkPalette :: "ColorModel list \<Rightarrow> ColorModel list" where
  "darkPalette f = filter (\<lambda>c. hsv_v (hsv c) \<le> 75 / 2) f"

definition lightPalette :: "ColorModel list \<Rightarrow> ColorModel list" where
  "lightPalette f = filter (\<lambda>c. hsv_v (hsv c) \<ge> 175 / 2) f"

definition basePalette :: "ColorModel list \<Rightarrow> ColorModel list" where
  "basePalette f = filter (\<lambda>c. hsv_v (hsv c) > 75 / 2 \<and> hsv_v (hsv c) < 175 / 2) f"

definition darkIterations :: "ColorModel list \<Rightarrow> int \<Rightarrow> nat" where
  "darkIterations f n =
     (if darkPalette f \<noteq> [] then nat (min (int (length (darkPalette f))) (n div 4)) else 0)"

definition lightIterations :: "ColorModel list \<Rightarrow> int \<Rightarrow> nat" where
  "lightIterations f n =
     (if lightPalette f \<noteq> [] then nat (min (int (length (lightPalette f))) (n div 4)) else 0)"

definition baseIterations :: "ColorModel list \<Rightarrow> int \<Rightarrow> nat" where
  "baseIterations f n =
     (let nbColors = int (darkIterations f n) + int (lightIterations f n)
      in nat (min (int (length (basePalette f))) (n - nbColors)))"

definition getDistributedPalette ::
  "engineSort \<Rightarrow> ColorPaletteGenerator \<Rightarrow> DistributedOptions
     \<Rightarrow> (error + ColorModel list \<times> ColorPaletteGenerator) option" where
  "getDistributedPalette engine g opts =
     (let returned0 = (if includeBaseColor opts then [baseColor g] else []);
          n = targetLength opts;
          f = saturationFiltered g opts
      in if int (length f) \<le> n + 1 then
           (let (f', k) = engine (rand g) (calls g) f
            in Some (Inr (slice0 f' n, g\<lparr>calls := k\<rparr>)))
         else
           (case sampleBand (rand g) (darkPalette f) (includeBaseColor opts) (baseColor g)
                   (darkIterations f n) [] returned0 (calls g) of
              None \<Rightarrow> None
            | Some (Inl e) \<Rightarrow> Some (Inl e)
            | Some (Inr (returned1, k1)) \<Rightarrow>
               (case sampleBand (rand g) (lightPalette f) (includeBaseColor opts) (baseColor g)
                       (lightIterations f n) [] returned1 k1 of
                  None \<Rightarrow> None
                | Some (Inl e) \<Rightarrow> Some (Inl e)
                | Some (Inr (returned2, k2)) \<Rightarrow>
                   (case sampleBand (rand g) (basePalette f) (includeBaseColor opts) (baseColor g)
                           (baseIterations f n) [] returned2 k2 of
                      None \<Rightarrow> None
                    | Some (Inl e) \<Rightarrow> Some (Inl e)
                    | Some (Inr (returned3, k3)) \<Rightarrow>
                        Some (Inr (if sortByBrightness opts then sortBrightness returned3
                                   else returned3,
                                   g\<lparr>calls := k3\<rparr>))))))"

section \<open>The specification's wording\<close>

text \<open>The mathematical \<open>x mod y\<close> on numbers, with the floored quotient.\<close>

definition spec_mod :: "real \<Rightarrow> real \<Rightarrow> real" where
  "spec_mod x y = x - y * of_int \<lfloor>x / y\<rfloor>"

text \<open>A string of exactly six hex digits, and a well-formed hex code: six hex digits after an optional \<open>#\<close>.\<close>

definition sixHexDigits :: "string \<Rightarrow> bool" where
  "sixHexDigits t = (length t = 6 \<and> list_all (\<lambda>c. c \<in> set ''0123456789abcdefABCDEF'') t)"

definition wellFormedHex :: "string \<Rightarrow> bool" where
  "wellFormedHex s =
     (sixHexDigits s \<or> (case s of [] \<Rightarrow> False | c # t \<Rightarrow> c = CHR ''#'' \<and> sixHexDigits t))"

text \<open>The value of a channel written with the two hex digits \<open>hi\<close> and \<open>lo\<close>.\<close>

definition channel :: "char \<Rightarrow> char \<Rightarrow> real" where
  "channel hi lo = real (16 * hexDigitValue hi + hexDigitValue lo)"

text \<open>The HSV value \<open>saturate\<close> aims at: the stored HSV with its saturation moved and limited.\<close>

definition saturateTarget :: "real \<Rightarrow> real \<Rightarrow> real \<Rightarrow> ColorModel \<Rightarrow> HSVColor" where
  "saturateTarget saturation mx mn c = (hsv c)\<lparr>hsv_s := limit (hsv_s (hsv c) + saturation) mx mn\<rparr>"

text \<open>The lengths the specification gives the palettes of a generator of precision \<open>prec\<close>.\<close>

definition lengthsAsSpecified :: "ColorPaletteGenerator \<Rightarrow> int \<Rightarrow> bool" where
  "lengthsAsSpecified g prec =
     (int (length (base (palettes g))) = 2 * prec + 1 \<and>
      length (light (palettes g)) = length (base (palettes g)) \<and>
      length (dark (palettes g)) = length (base (palettes g)) \<and>
      int (length (fullPalette g)) = 3 * (2 * prec + 1))"

text \<open>A colour of the palette that is not the base colour, as \<open>equals\<close> sees it.\<close>

definition others :: "ColorModel \<Rightarrow> ColorModel list \<Rightarrow> ColorModel list" where
  "others bc band = filter (\<lambda>c. \<not> equals c bc) band"


text \<open>The indexes a rejection loop can leave with: inside the band and, when the base colour is included, not equal to it.\<close>

definition acceptable :: "ColorModel list \<Rightarrow> bool \<Rightarrow> ColorModel \<Rightarrow> int set" where
  "acceptable band incl bc =
     {i. 0 \<le> i \<and> i < int (length band) \<and> \<not> (incl \<and> equals (band ! nat i) bc)}"

text \<open>The first \<open>N\<close> values of a sequence of random values, followed by zeros.\<close>

definition firstDraws :: "nat \<Rightarrow> (nat \<Rightarrow> real) \<Rightarrow> nat \<Rightarrow> real" where
  "firstDraws N rs k = (if k < N then rs k else 0)"

section \<open>Inputs for evaluation\<close>

text \<open>
  \<open>new ColorPaletteGenerator({ rand: () => 0, precision: 1, baseColor: '#ff0000' })\<close>, and
  a generator that cycles through \<open>0, 1/N, ..., (N-1)/N\<close>.
\<close>

definition redSeedParams :: ColorPaletteParams where
  "redSeedParams =
     \<lparr>param_rand = (\<lambda>k. 0), param_precision = Some 1, param_hueRange = None,
      param_baseColor = Some ''#ff0000'', param_baseSaturation = None\<rparr>"

definition cycle :: "nat \<Rightarrow> nat \<Rightarrow> real" where
  "cycle N k = real (k mod N) / real N"

section \<open>Evaluating the colour model\<close>

lemma hexToRgb_black: "hexToRgb ''#000000'' = \<lparr>rgb_r = 0, rgb_g = 0, rgb_b = 0\<rparr>"
  by (simp add: hexToRgb_def hexPattern_def isHexDigit_def parseInt16_def hexDigitValue_def)

lemma rgbToHsl_black: "rgbToHsl \<lparr>rgb_r = 0, rgb_g = 0, rgb_b = 0\<rparr> = \<lparr>hsl_h = 0, hsl_s = 0, hsl_l = 0\<rparr>"
  by (simp add: rgbToHsl_def Math_floor_def)

lemma hslToHsv_black: "hslToHsv \<lparr>hsl_h = 0, hsl_s = 0, hsl_l = 0\<rparr> = \<lparr>hsv_h = 0, hsv_s = 0, hsv_v = 0\<rparr>"
  by (simp add: hslToHsv_def)

lemma black: "newColorModel ''#000000'' =
  \<lparr>hex = ''#000000'', rgb = \<lparr>rgb_r = 0, rgb_g = 0, rgb_b = 0\<rparr>,
   hsl = \<lparr>hsl_h = 0, hsl_s = 0, hsl_l = 0\<rparr>, hsv = \<lparr>hsv_h = 0, hsv_s = 0, hsv_v = 0\<rparr>\<rparr>"
  by (simp add: newColorModel_def hexToRgb_black rgbToHsl_black hslToHsv_black)

lemma hexToRgb_red: "hexToRgb ''#ff0000'' = \<lparr>rgb_r = 255, rgb_g = 0, rgb_b = 0\<rparr>"
  by (simp add: hexToRgb_def hexPattern_def isHexDigit_def parseInt16_def hexDigitValue_def)

lemma rgbToHsl_red: "rgbToHsl \<lparr>rgb_r = 255, rgb_g = 0, rgb_b = 0\<rparr> = \<lparr>hsl_h = 0, hsl_s = 100, hsl_l = 50\<rparr>"
  by (simp add: rgbToHsl_def Math_floor_def)

lemma hslToHsv_red: "hslToHsv \<lparr>hsl_h = 0, hsl_s = 100, hsl_l = 50\<rparr> = \<lparr>hsv_h = 0, hsv_s = 100, hsv_v = 100\<rparr>"
  by (simp add: hslToHsv_def)

lemma red: "newColorModel ''#ff0000'' =
  \<lparr>hex = ''#ff0000'', rgb = \<lparr>rgb_r = 255, rgb_g = 0, rgb_b = 0\<rparr>,
   hsl = \<lparr>hsl_h = 0, hsl_s = 100, hsl_l = 50\<rparr>, hsv = \<lparr>hsv_h = 0, hsv_s = 100, hsv_v = 100\<rparr>\<rparr>"
  by (simp add: newColorModel_def hexToRgb_red rgbToHsl_red hslToHsv_red)

section \<open>The hue wraps around\<close>

lemma js_rem_pos: "0 \<le> x \<Longrightarrow> 0 < y \<Longrightarrow> js_rem x y = spec_mod x y"
  by (simp add: js_rem_def spec_mod_def js_trunc_def not_less[symmetric] divide_less_0_iff)

text \<open>
  Claim C8. For all numbers \<open>h\<close> and \<open>add\<close>, \<open>addToHue h add\<close> is \<open>(h + add) mod 360\<close>
  when \<open>h + add > 360\<close>, is \<open>360 + h + add\<close> when \<open>h + add < 0\<close>, and is \<open>h + add\<close>
  otherwise; \<open>addToHue 350 20 = 10\<close>, \<open>addToHue 10 (-20) = 350\<close> and
  \<open>addToHue 100 50 = 150\<close>.
\<close>

theorem addToHue_cases:
  "(h + add > 360 \<longrightarrow> addToHue h add = spec_mod (h + add) 360) \<and>
   (h + add < 0 \<longrightarrow> addToHue h add = 360 + h + add) \<and>
   (\<not> h + add > 360 \<and> \<not> h + add < 0 \<longrightarrow> addToHue h add = h + add) \<and>
   addToHue 350 20 = 10 \<and> addToHue 10 (- 20) = 350 \<and> addToHue 100 50 = 150"
proof -
  have "h + add > 360 \<Longrightarrow> addToHue h add = spec_mod (h + add) 360"
    using js_rem_pos [of "h + add" 360] by (simp add: addToHue_def)
  moreover have "addToHue 350 20 = 10" "addToHue 10 (- 20) = 350" "addToHue 100 50 = 150"
    by (simp_all add: addToHue_def js_rem_def js_trunc_def)
  ultimately show ?thesis by (simp add: addToHue_def)
qed

theorem addToHue_cases_witness:
  "(350::real) + 20 > 360 \<and> addToHue 350 20 = spec_mod 370 360 \<and> spec_mod 370 360 = 10 \<and>
   (10::real) + (- 20) < 0 \<and> addToHue 10 (- 20) = 350 \<and>
   \<not> (100::real) + 50 > 360 \<and> \<not> (100::real) + 50 < 0 \<and> addToHue 100 50 = 150"
  using addToHue_cases [of 350 20] addToHue_cases [of 10 "- 20"] addToHue_cases [of 100 50]
  by (simp add: spec_mod_def)

section \<open>Parsing and printing hex codes\<close>

lemma isHexDigit_eq: "isHexDigit = (\<lambda>c. c \<in> set ''0123456789abcdefABCDEF'')"
  by (rule ext) (rule isHexDigit_def)

lemma hexDigit_not_hash: "c \<in> set ''0123456789abcdefABCDEF'' \<Longrightarrow> c \<noteq> CHR ''#''"
  by auto

lemma hexPattern_hash:
  "sixHexDigits t \<Longrightarrow> hexPattern (CHR ''#'' # t) = Some (take 2 t, take 2 (drop 2 t), take 2 (drop 4 t))"
  unfolding hexPattern_def sixHexDigits_def isHexDigit_eq by simp

lemma hexPattern_plain:
  assumes "sixHexDigits t"
  shows "hexPattern t = Some (take 2 t, take 2 (drop 2 t), take 2 (drop 4 t))"
proof (cases t)
  case Nil
  with assms show ?thesis by (simp add: sixHexDigits_def)
next
  case (Cons c cs)
  with assms have "c \<in> set ''0123456789abcdefABCDEF''"
    unfolding sixHexDigits_def by (simp only: list.pred_inject(2))
  then have "c \<noteq> CHR ''#''" by (rule hexDigit_not_hash)
  with assms Cons show ?thesis
    unfolding hexPattern_def sixHexDigits_def isHexDigit_eq
    by (simp only: list.case if_False Let_def if_True simp_thms)
qed

lemma hexPattern_None:
  assumes "\<not> wellFormedHex s"
  shows "hexPattern s = None"
proof (cases s)
  case Nil
  then show ?thesis by (simp add: hexPattern_def)
next
  case (Cons c cs)
  show ?thesis
  proof (cases "c = CHR ''#''")
    case True
    with assms Cons have "\<not> sixHexDigits cs" by (simp add: wellFormedHex_def)
    with True Cons show ?thesis
      unfolding hexPattern_def sixHexDigits_def isHexDigit_eq
      by (simp only: list.case if_True Let_def if_False simp_thms)
  next
    case False
    from assms have "\<not> sixHexDigits s" by (simp add: wellFormedHex_def)
    with False Cons show ?thesis
      unfolding hexPattern_def sixHexDigits_def isHexDigit_eq
      by (simp only: list.case if_True Let_def if_False simp_thms)
  qed
qed

lemma six_list: "length t = 6 \<Longrightarrow> \<exists>a b c d e f. t = [a, b, c, d, e, f]"
  by (auto simp: length_Suc_conv numeral_eq_Suc)

lemma parse_groups:
  assumes "sixHexDigits t"
  shows "real (parseInt16 (take 2 t)) = channel (t ! 0) (t ! 1)"
    "real (parseInt16 (take 2 (drop 2 t))) = channel (t ! 2) (t ! 3)"
    "real (parseInt16 (take 2 (drop 4 t))) = channel (t ! 4) (t ! 5)"
proof -
  from assms have "length t = 6" by (simp add: sixHexDigits_def)
  then obtain a b c d e f where "t = [a, b, c, d, e, f]"
    using six_list by blast
  then show "real (parseInt16 (take 2 t)) = channel (t ! 0) (t ! 1)"
    "real (parseInt16 (take 2 (drop 2 t))) = channel (t ! 2) (t ! 3)"
    "real (parseInt16 (take 2 (drop 4 t))) = channel (t ! 4) (t ! 5)"
    by (simp_all add: parseInt16_def channel_def)
qed

text \<open>
  Claim C9. \<open>hexToRgb\<close> is a total function of the string, so no input makes it raise.
  On a string that is not six hex digits after an optional \<open>#\<close> it returns
  \<open>{r: 0, g: 0, b: 0}\<close>; on a well-formed code it parses the three channels;
  \<open>hexToRgb('#3459c7')\<close> is \<open>{r: 52, g: 89, b: 199}\<close> and \<open>rgbToHex\<close> of that is
  \<open>'#3459c7'\<close>.
\<close>

theorem hexToRgb_total:
  "(\<not> wellFormedHex s \<longrightarrow> hexToRgb s = \<lparr>rgb_r = 0, rgb_g = 0, rgb_b = 0\<rparr>) \<and>
   (sixHexDigits t \<longrightarrow>
      hexToRgb (CHR ''#'' # t) =
        \<lparr>rgb_r = channel (t ! 0) (t ! 1), rgb_g = channel (t ! 2) (t ! 3), rgb_b = channel (t ! 4) (t ! 5)\<rparr>) \<and>
   hexToRgb ''#3459c7'' = \<lparr>rgb_r = 52, rgb_g = 89, rgb_b = 199\<rparr> \<and>
   rgbToHex \<lparr>rgb_r = 52, rgb_g = 89, rgb_b = 199\<rparr> = ''#3459c7''"
proof -
  have "hexToRgb ''#3459c7'' = \<lparr>rgb_r = 52, rgb_g = 89, rgb_b = 199\<rparr>"
    by (simp add: hexToRgb_def hexPattern_def isHexDigit_def parseInt16_def hexDigitValue_def)
  moreover have "rgbToHex \<lparr>rgb_r = 52, rgb_g = 89, rgb_b = 199\<rparr> = ''#3459c7''"
    by (simp add: rgbToHex_def toHex_def toString16_def Math_round_def hexDigits.simps digitChar_def)
  ultimately show ?thesis
    by (simp add: hexToRgb_def hexPattern_None hexPattern_hash parse_groups)
qed

theorem hexToRgb_total_witness:
  "\<not> wellFormedHex ''#12345'' \<and> hexToRgb ''#12345'' = \<lparr>rgb_r = 0, rgb_g = 0, rgb_b = 0\<rparr> \<and>
   sixHexDigits ''FFa001'' \<and> hexToRgb ''#FFa001'' = \<lparr>rgb_r = 255, rgb_g = 160, rgb_b = 1\<rparr>"
  using hexToRgb_total [of "''#12345''" "''FFa001''"]
  by (simp add: wellFormedHex_def sixHexDigits_def channel_def hexDigitValue_def)

text \<open>
  Claim C10. On a string of exactly six hex digits without the leading \<open>#\<close>, \<open>hexToRgb\<close>
  returns what it returns on the same string with the \<open>#\<close>: the pattern matches and
  the channels are parsed, there is no fallback to black.
\<close>

theorem hexToRgb_prefix_optional:
  "sixHexDigits t \<Longrightarrow>
     hexToRgb t = hexToRgb (CHR ''#'' # t) \<and>
     hexPattern t \<noteq> None \<and>
     hexToRgb t =
       \<lparr>rgb_r = channel (t ! 0) (t ! 1), rgb_g = channel (t ! 2) (t ! 3), rgb_b = channel (t ! 4) (t ! 5)\<rparr>"
  by (simp add: hexToRgb_def hexPattern_plain hexPattern_hash parse_groups)

theorem hexToRgb_prefix_optional_witness:
  "sixHexDigits ''3459c7'' \<and> hexToRgb ''3459c7'' = hexToRgb ''#3459c7'' \<and>
   hexToRgb ''3459c7'' = \<lparr>rgb_r = 52, rgb_g = 89, rgb_b = 199\<rparr>"
proof -
  have h: "sixHexDigits ''3459c7''" by (simp add: sixHexDigits_def)
  note r = hexToRgb_prefix_optional [OF h]
  have "hexToRgb ''3459c7'' = hexToRgb ''#3459c7''"
    using r by blast
  moreover have "hexToRgb ''3459c7'' = \<lparr>rgb_r = 52, rgb_g = 89, rgb_b = 199\<rparr>"
    using r [THEN conjunct2, THEN conjunct2] by (simp add: channel_def hexDigitValue_def)
  ultimately show ?thesis using h by blast
qed

section \<open>The adjusters\<close>

text \<open>
  Claim C5. Whatever the colour and the arguments, \<open>brighten\<close> leaves the colour as the
  assignment \<open>this.hsl = this.hsvToHsl(this.hsv)\<close> alone leaves it, with the HSV it had
  on entry: the limited lightness it writes first is overwritten, and hex, rgb, hsl and
  hsv are the HSL setter's values.
\<close>

theorem brighten_is_hsl_recompute:
  "brighten brightness mx mn c = set_hsl (hsvToHsl (hsv c)) c \<and>
   hsl (brighten brightness mx mn c) = hsvToHsl (hsv c) \<and>
   rgb (brighten brightness mx mn c) = hslToRgb (hsvToHsl (hsv c)) \<and>
   hex (brighten brightness mx mn c) = rgbToHex (hslToRgb (hsvToHsl (hsv c))) \<and>
   hsv (brighten brightness mx mn c) = hslToHsv (hsvToHsl (hsv c))"
  by (simp add: brighten_def set_hsl_def Let_def)

text \<open>
  Claim C6, as stated: after \<open>saturate\<close> the stored HSV is the limited target. It fails
  on black: the target of \<open>saturate(50)\<close> has saturation 50, the stored HSV has
  saturation 0, since the HSL setter recomputes the HSV from the HSL.
\<close>

theorem saturate_black_counterexample:
  "saturateTarget 50 100 0 (newColorModel ''#000000'') = \<lparr>hsv_h = 0, hsv_s = 50, hsv_v = 0\<rparr> \<and>
   hsv (saturate 50 100 0 (newColorModel ''#000000'')) = \<lparr>hsv_h = 0, hsv_s = 0, hsv_v = 0\<rparr> \<and>
   hsv (saturate 50 100 0 (newColorModel ''#000000'')) \<noteq> saturateTarget 50 100 0 (newColorModel ''#000000'')"
proof -
  have t: "saturateTarget 50 100 0 (newColorModel ''#000000'') = \<lparr>hsv_h = 0, hsv_s = 50, hsv_v = 0\<rparr>"
    by (simp add: black saturateTarget_def limit_def)
  have l: "hsvToHsl \<lparr>hsv_h = 0, hsv_s = 50, hsv_v = 0\<rparr> = \<lparr>hsl_h = 0, hsl_s = 0, hsl_l = 0\<rparr>"
    by (simp add: hsvToHsl_def)
  have "hsv (saturate 50 100 0 (newColorModel ''#000000'')) =
      hslToHsv (hsvToHsl (saturateTarget 50 100 0 (newColorModel ''#000000'')))"
    by (simp add: saturate_def saturateTarget_def set_hsl_def Let_def)
  then have s: "hsv (saturate 50 100 0 (newColorModel ''#000000'')) = \<lparr>hsv_h = 0, hsv_s = 0, hsv_v = 0\<rparr>"
    by (simp add: t l hslToHsv_black)
  show ?thesis unfolding s t by simp
qed

lemma limit_clamp: "mn \<le> mx \<Longrightarrow> limit x mx mn = max mn (min mx x)"
  by (simp add: limit_def max_def min_def)

text \<open>
  Claim C6, amended. \<open>saturate\<close> writes the clamped sum of the stored saturation and
  \<open>delta\<close> into the stored HSV, hue and value as they were, and commits that value
  through the HSL setter, \<open>this.hsl = this.hsvToHsl(this.hsv)\<close>: hsl, rgb and hex are
  what the HSV setter derives from the target, and the stored HSV is recomputed, as
  \<open>hslToHsv\<close> of the new HSL.
\<close>

theorem saturate_commits_via_hsl:
  "hsv_s (saturateTarget saturation mx mn c) = limit (hsv_s (hsv c) + saturation) mx mn \<and>
   hsv_h (saturateTarget saturation mx mn c) = hsv_h (hsv c) \<and>
   hsv_v (saturateTarget saturation mx mn c) = hsv_v (hsv c) \<and>
   saturate saturation mx mn c =
     set_hsl (hsvToHsl (saturateTarget saturation mx mn c)) (c\<lparr>hsv := saturateTarget saturation mx mn c\<rparr>) \<and>
   hsl (saturate saturation mx mn c) = hsvToHsl (saturateTarget saturation mx mn c) \<and>
   rgb (saturate saturation mx mn c) = hslToRgb (hsvToHsl (saturateTarget saturation mx mn c)) \<and>
   hex (saturate saturation mx mn c) = rgbToHex (hslToRgb (hsvToHsl (saturateTarget saturation mx mn c))) \<and>
   hsv (saturate saturation mx mn c) = hslToHsv (hsl (saturate saturation mx mn c)) \<and>
   hsl (saturate saturation mx mn c) = hsl (set_hsv (saturateTarget saturation mx mn c) c) \<and>
   rgb (saturate saturation mx mn c) = rgb (set_hsv (saturateTarget saturation mx mn c) c) \<and>
   hex (saturate saturation mx mn c) = hex (set_hsv (saturateTarget saturation mx mn c) c)"
proof -
  define T where "T = saturateTarget saturation mx mn c"
  have target: "hsv_s T = limit (hsv_s (hsv c) + saturation) mx mn"
    "hsv_h T = hsv_h (hsv c)" "hsv_v T = hsv_v (hsv c)"
    by (simp_all add: T_def saturateTarget_def)
  have chain: "saturate saturation mx mn c = set_hsl (hsvToHsl T) (c\<lparr>hsv := T\<rparr>)"
    by (simp add: saturate_def saturateTarget_def T_def Let_def)
  have fields: "hsl (set_hsl (hsvToHsl T) (c\<lparr>hsv := T\<rparr>)) = hsvToHsl T"
    "rgb (set_hsl (hsvToHsl T) (c\<lparr>hsv := T\<rparr>)) = hslToRgb (hsvToHsl T)"
    "hex (set_hsl (hsvToHsl T) (c\<lparr>hsv := T\<rparr>)) = rgbToHex (hslToRgb (hsvToHsl T))"
    "hsv (set_hsl (hsvToHsl T) (c\<lparr>hsv := T\<rparr>)) = hslToHsv (hsvToHsl T)"
    by (simp_all add: set_hsl_def Let_def)
  have setter: "hsl (set_hsv T c) = hsvToHsl T"
    "rgb (set_hsv T c) = hslToRgb (hsvToHsl T)"
    "hex (set_hsv T c) = rgbToHex (hslToRgb (hsvToHsl T))"
    by (simp_all add: set_hsv_def Let_def)
  show ?thesis
    unfolding T_def [symmetric] chain fields setter target by simp
qed

section \<open>The lengths of the palettes\<close>

lemma length_firstColors:
  "length (firstColors bc prec hueStep es ev i pal) = length pal + nat (prec + 1 - i)"
proof (induction bc prec hueStep es ev i pal rule: firstColors.induct)
  case (1 bc prec hueStep es ev i pal)
  show ?case
  proof (cases "i \<le> prec")
    case True
    with "1.IH" show ?thesis
      by (subst firstColors.simps) (simp add: Let_def nat_add_distrib)
  next
    case False
    then show ?thesis by (subst firstColors.simps) simp
  qed
qed

lemma length_secondColors:
  "length (secondColors bc prec hueStep es ev i pal) = length pal + nat (prec + 1 - i)"
proof (induction bc prec hueStep es ev i pal rule: secondColors.induct)
  case (1 bc prec hueStep es ev i pal)
  show ?case
  proof (cases "i \<le> prec")
    case True
    with "1.IH" show ?thesis
      by (subst secondColors.simps) (simp add: Let_def nat_add_distrib)
  next
    case False
    then show ?thesis by (subst secondColors.simps) simp
  qed
qed

lemma base_generateBasePalette:
  "length (base (palettes (generateBasePalette g))) = length (base (palettes g)) + 1 + 2 * nat (precision g)"
  by (simp add: generateBasePalette_def Let_def length_firstColors length_secondColors)

lemma generatePalettes_lengths:
  "length (base (palettes (generatePalettes g))) = 2 * nat (precision g) + 1"
  "length (light (palettes (generatePalettes g))) = 2 * nat (precision g) + 1"
  "length (dark (palettes (generatePalettes g))) = 2 * nat (precision g) + 1"
  by (simp_all add: generatePalettes_def generateDarkPalette_def generateLightPalette_def Let_def
      base_generateBasePalette)
     (simp_all add: generateBasePalette_def Let_def)


lemma lengthsAsSpecified_generatePalettes:
  "0 \<le> precision g \<Longrightarrow> lengthsAsSpecified (generatePalettes g) (precision g)"
  by (simp add: lengthsAsSpecified_def fullPalette_def generatePalettes_lengths)

lemma precision_generatePalettes: "precision (generatePalettes g) = precision g"
  by (simp add: generatePalettes_def generateDarkPalette_def generateLightPalette_def
      generateBasePalette_def Let_def)

lemma precision_constructorState:
  "precision (constructorState p) = (case param_precision p of None \<Rightarrow> 4 | Some x \<Rightarrow> x)"
  by (simp add: constructorState_def Let_def split_def)

text \<open>
  Claim C2. For every precision of at least 1, after \<open>generatePalettes\<close>, and so after
  the constructor, the base palette has \<open>2 * precision + 1\<close> colours, the light and the
  dark palette have as many, and \<open>fullPalette\<close> has \<open>3 * (2 * precision + 1)\<close>.
\<close>

theorem palette_lengths:
  "(1 \<le> precision g \<longrightarrow> lengthsAsSpecified (generatePalettes g) (precision g)) \<and>
   (1 \<le> precision (newColorPaletteGenerator p) \<longrightarrow>
      lengthsAsSpecified (newColorPaletteGenerator p) (precision (newColorPaletteGenerator p)))"
proof -
  have "precision (newColorPaletteGenerator p) = precision (constructorState p)"
    by (simp add: newColorPaletteGenerator_def precision_generatePalettes)
  then show ?thesis
    using lengthsAsSpecified_generatePalettes [of g]
      lengthsAsSpecified_generatePalettes [of "constructorState p"]
    by (simp add: newColorPaletteGenerator_def)
qed

theorem palette_lengths_witness:
  "length (fullPalette (generatePalettes \<lparr>rand = (\<lambda>k. 0), calls = 0, precision = 1, hueRange = 180,
        baseColor = newColorModel ''#000000'', palettes = \<lparr>base = [], light = [], dark = []\<rparr>\<rparr>)) = 9 \<and>
   precision (newColorPaletteGenerator \<lparr>param_rand = (\<lambda>k. 0), param_precision = None,
        param_hueRange = None, param_baseColor = Some ''#3459c7'', param_baseSaturation = None\<rparr>) = 4 \<and>
   length (base (palettes (newColorPaletteGenerator \<lparr>param_rand = (\<lambda>k. 0), param_precision = None,
        param_hueRange = None, param_baseColor = Some ''#3459c7'', param_baseSaturation = None\<rparr>))) = 9 \<and>
   length (light (palettes (newColorPaletteGenerator \<lparr>param_rand = (\<lambda>k. 0), param_precision = None,
        param_hueRange = None, param_baseColor = Some ''#3459c7'', param_baseSaturation = None\<rparr>))) = 9 \<and>
   length (dark (palettes (newColorPaletteGenerator \<lparr>param_rand = (\<lambda>k. 0), param_precision = None,
        param_hueRange = None, param_baseColor = Some ''#3459c7'', param_baseSaturation = None\<rparr>))) = 9 \<and>
   length (fullPalette (newColorPaletteGenerator \<lparr>param_rand = (\<lambda>k. 0), param_precision = None,
        param_hueRange = None, param_baseColor = Some ''#3459c7'', param_baseSaturation = None\<rparr>)) = 27"
proof -
  have "precision (newColorPaletteGenerator \<lparr>param_rand = (\<lambda>k. 0), param_precision = None,
        param_hueRange = None, param_baseColor = Some ''#3459c7'', param_baseSaturation = None\<rparr>) = 4"
    by (simp add: newColorPaletteGenerator_def precision_generatePalettes precision_constructorState)
  then show ?thesis
    using palette_lengths [of "\<lparr>rand = (\<lambda>k. 0), calls = 0, precision = 1, hueRange = 180,
        baseColor = newColorModel ''#000000'', palettes = \<lparr>base = [], light = [], dark = []\<rparr>\<rparr>"
      "\<lparr>param_rand = (\<lambda>k. 0), param_precision = None, param_hueRange = None,
        param_baseColor = Some ''#3459c7'', param_baseSaturation = None\<rparr>"]
    by (simp add: lengthsAsSpecified_def)
qed

section \<open>Selecting colours\<close>

lemma set_insertRandom: "set (fst (insertRandom rs x ys n)) = insert x (set ys)"
  by (induction ys arbitrary: n) (auto simp: split_def Let_def)

lemma length_insertRandom: "length (fst (insertRandom rs x ys n)) = Suc (length ys)"
  by (induction ys arbitrary: n) (auto simp: split_def Let_def)

lemma set_insertionSort: "set (fst (insertionSort rs n xs)) = set xs"
  by (induction xs) (auto simp: split_def Let_def set_insertRandom)

lemma length_insertionSort: "length (fst (insertionSort rs n xs)) = length xs"
  by (induction xs) (auto simp: split_def Let_def length_insertRandom)

lemma set_slice0: "set (slice0 xs n) \<subseteq> set xs"
  by (auto simp: slice0_def dest: in_set_takeD)

lemma set_sortBrightness: "set (sortBrightness xs) = set xs"
  by (simp add: sortBrightness_def)

lemma length_sortBrightness: "length (sortBrightness xs) = length xs"
  by (simp add: sortBrightness_def)

lemma hsvToHsl_red: "hsvToHsl \<lparr>hsv_h = 0, hsv_s = 100, hsv_v = 100\<rparr> = \<lparr>hsl_h = 0, hsl_s = 100, hsl_l = 50\<rparr>"
  by (simp add: hsvToHsl_def)

lemma hslToRgb_red: "hslToRgb \<lparr>hsl_h = 0, hsl_s = 100, hsl_l = 50\<rparr> = \<lparr>rgb_r = 255, rgb_g = 0, rgb_b = 0\<rparr>"
  by (simp add: hslToRgb_def hue2rgb_def)

lemma rgbToHex_red: "rgbToHex \<lparr>rgb_r = 255, rgb_g = 0, rgb_b = 0\<rparr> = ''#ff0000''"
  by (simp add: rgbToHex_def toHex_def toString16_def Math_round_def hexDigits.simps digitChar_def)

lemma saturate_red: "saturate 0 100 0 (newColorModel ''#ff0000'') = newColorModel ''#ff0000''"
  by (simp add: saturate_def red limit_def set_hsl_def hsvToHsl_red hslToRgb_red rgbToHex_red hslToHsv_red)

lemma baseColor_generatePalettes: "baseColor (generatePalettes g) = baseColor g"
  by (simp add: generatePalettes_def generateDarkPalette_def generateLightPalette_def
      generateBasePalette_def Let_def)

lemma firstColors_keeps: "set pal \<subseteq> set (firstColors bc prec hueStep es ev i pal)"
proof (induction bc prec hueStep es ev i pal rule: firstColors.induct)
  case (1 bc prec hueStep es ev i pal)
  show ?case
  proof (cases "i \<le> prec")
    case True
    with "1.IH" show ?thesis
      by (subst firstColors.simps) (auto simp: Let_def)
  next
    case False
    then show ?thesis by (subst firstColors.simps) simp
  qed
qed

lemma secondColors_keeps: "set pal \<subseteq> set (secondColors bc prec hueStep es ev i pal)"
proof (induction bc prec hueStep es ev i pal rule: secondColors.induct)
  case (1 bc prec hueStep es ev i pal)
  show ?case
  proof (cases "i \<le> prec")
    case True
    with "1.IH" show ?thesis
      by (subst secondColors.simps) (auto simp: Let_def)
  next
    case False
    then show ?thesis by (subst secondColors.simps) simp
  qed
qed

lemma baseColor_in_base: "baseColor g \<in> set (base (palettes (generatePalettes g)))"
proof -
  have "baseColor g \<in> set (base (palettes (generateBasePalette (g\<lparr>palettes := \<lparr>base = [], light = [], dark = []\<rparr>\<rparr>))))"
    using firstColors_keeps secondColors_keeps
    by (simp add: generateBasePalette_def Let_def) (meson list.set_intros(1) subsetD)
  then show ?thesis
    by (simp add: generatePalettes_def generateDarkPalette_def generateLightPalette_def Let_def)
qed

lemma baseColor_in_fullPalette: "baseColor g \<in> set (fullPalette (generatePalettes g))"
  using baseColor_in_base [of g] by (simp add: fullPalette_def)

lemma constructorState_red:
  "baseColor (constructorState redSeedParams) = newColorModel ''#ff0000''"
  "precision (constructorState redSeedParams) = 1"
  "rand (constructorState redSeedParams) = (\<lambda>k. 0)"
  by (simp_all add: constructorState_def redSeedParams_def setBaseColor_def saturate_red)

lemma redGenerator:
  "baseColor (newColorPaletteGenerator redSeedParams) = newColorModel ''#ff0000''"
  "precision (newColorPaletteGenerator redSeedParams) = 1"
  "newColorModel ''#ff0000'' \<in> set (fullPalette (newColorPaletteGenerator redSeedParams))"
  "length (fullPalette (newColorPaletteGenerator redSeedParams)) = 9"
proof -
  show "baseColor (newColorPaletteGenerator redSeedParams) = newColorModel ''#ff0000''"
    by (simp add: newColorPaletteGenerator_def baseColor_generatePalettes constructorState_red)
  show "precision (newColorPaletteGenerator redSeedParams) = 1"
    by (simp add: newColorPaletteGenerator_def precision_generatePalettes constructorState_red)
  show "newColorModel ''#ff0000'' \<in> set (fullPalette (newColorPaletteGenerator redSeedParams))"
    using baseColor_in_fullPalette [of "constructorState redSeedParams"]
    by (simp add: newColorPaletteGenerator_def constructorState_red)
  show "length (fullPalette (newColorPaletteGenerator redSeedParams)) = 9"
    by (simp add: newColorPaletteGenerator_def fullPalette_def generatePalettes_lengths constructorState_red)
qed

text \<open>
  Claim C3. With \<open>length: 8\<close> and \<open>includeBaseColor: true\<close> the base colour is pushed
  first and the target length becomes 7, but when at most 8 colours pass the filters the
  method returns the shuffled, truncated pool and not \<open>returnedPalette\<close>. On the
  generator of \<open>redSeedParams\<close> with \<open>maxSaturation: 50\<close> the base colour, of saturation
  100, is not in the pool: every colour returned has a saturation of at most 50 and the
  base colour is not among them.
\<close>

theorem distributed_fallback_drops_seed:
  "\<exists>pal g'.
     getDistributedPalette insertionSort (newColorPaletteGenerator redSeedParams)
       (defaultDistributedOptions\<lparr>len := 8, includeBaseColor := True, maxSaturation := 50\<rparr>)
       = Some (Inr (pal, g')) \<and>
     baseColor (newColorPaletteGenerator redSeedParams) \<notin> set pal \<and>
     hsv_s (hsv (baseColor (newColorPaletteGenerator redSeedParams))) = 100 \<and>
     list_all (\<lambda>c. hsv_s (hsv c) \<le> 50) pal"
proof -
  define g where "g = newColorPaletteGenerator redSeedParams"
  define opts where "opts = defaultDistributedOptions\<lparr>len := 8, includeBaseColor := True, maxSaturation := 50\<rparr>"
  define f where "f = saturationFiltered g opts"
  have o: "targetLength opts = 7" "includeBaseColor opts" "maxSaturation opts = 50"
    by (simp_all add: opts_def targetLength_def defaultDistributedOptions_def)
  have s: "hsv_s (hsv (baseColor g)) = 100"
    by (simp add: g_def redGenerator red)
  have low: "\<forall>c \<in> set f. hsv_s (hsv c) \<le> 50"
    by (auto simp: f_def saturationFiltered_def o Let_def)
  have "newColorModel ''#ff0000'' \<in> set (fullPalette g)"
    by (simp add: g_def redGenerator)
  moreover have "\<not> hsv_s (hsv (newColorModel ''#ff0000'')) \<le> 50"
    by (simp add: red)
  ultimately have "length f < length (fullPalette g)"
    unfolding f_def saturationFiltered_def Let_def o
    by (metis (no_types, lifting) filter_filter length_filter_less)
  then have short: "int (length f) \<le> targetLength opts + 1"
    by (simp add: o g_def redGenerator)
  define pal where "pal = slice0 (fst (insertionSort (rand g) (calls g) f)) 7"
  have res: "getDistributedPalette insertionSort g opts =
      Some (Inr (pal, g\<lparr>calls := snd (insertionSort (rand g) (calls g) f)\<rparr>))"
    using short by (simp add: getDistributedPalette_def Let_def f_def [symmetric] o pal_def split_def)
  have sub: "set pal \<subseteq> set f"
    unfolding pal_def using set_slice0 set_insertionSort by fastforce
  with low have all: "list_all (\<lambda>c. hsv_s (hsv c) \<le> 50) pal"
    by (auto simp: list_all_iff)
  with s have "baseColor g \<notin> set pal"
    by (auto simp: list_all_iff)
  with res s all show ?thesis
    unfolding g_def opts_def by blast
qed

lemma slice0_all: "int (length xs) \<le> n \<Longrightarrow> slice0 xs n = xs"
  by (simp add: slice0_def)

text \<open>
  Claim C4. \<open>getRandomPalette\<close> of the TypeScript source reads neither \<open>minBrightness\<close>
  nor \<open>maxBrightness\<close>: the result is the same whatever their values. On the generator
  of \<open>redSeedParams\<close>, \<open>getRandomPalette({ length: 9, maxBrightness: 50 })\<close> returns the
  base colour, whose HSV value is 100.
\<close>

theorem random_ignores_brightness:
  "getRandomPalette engine g (opts\<lparr>minBrightness := lo, maxBrightness := hi\<rparr>) =
     getRandomPalette engine g opts \<and>
   newColorModel ''#ff0000'' \<in> set (fst (getRandomPalette insertionSort
     (newColorPaletteGenerator redSeedParams) (defaultRandomOptions\<lparr>len := 9, maxBrightness := 50\<rparr>))) \<and>
   hsv_v (hsv (newColorModel ''#ff0000'')) = 100 \<and>
   \<not> list_all (\<lambda>c. 0 \<le> hsv_v (hsv c) \<and> hsv_v (hsv c) \<le> 50) (fst (getRandomPalette insertionSort
     (newColorPaletteGenerator redSeedParams) (defaultRandomOptions\<lparr>len := 9, maxBrightness := 50\<rparr>)))"
proof -
  define g0 where "g0 = newColorPaletteGenerator redSeedParams"
  define o0 where "o0 = defaultRandomOptions\<lparr>len := 9, maxBrightness := 50\<rparr>"
  define p2 where "p2 = filter (\<lambda>c. hsv_s (hsv c) \<le> 100) (filter (\<lambda>c. hsv_s (hsv c) \<ge> 0) (fullPalette g0))"
  define p4 where "p4 = fst (insertionSort (rand g0) (calls g0) p2)"
  have o: "len o0 = 9" "\<not> includeBaseColor o0" "sortByBrightness o0" "minSaturation o0 = 0"
    "maxSaturation o0 = 100"
    by (simp_all add: o0_def defaultRandomOptions_def)
  have res: "fst (getRandomPalette insertionSort g0 o0) = sortBrightness (slice0 p4 9)"
    by (simp add: getRandomPalette_def Let_def o split_def g0_def redGenerator p2_def p4_def)
  have "length p2 \<le> length (fullPalette g0)"
    unfolding p2_def by (meson length_filter_le order_trans)
  then have "int (length p4) \<le> 9"
    by (simp add: p4_def length_insertionSort g0_def redGenerator)
  then have "slice0 p4 9 = p4" by (rule slice0_all)
  moreover have "newColorModel ''#ff0000'' \<in> set p2"
    by (simp add: p2_def g0_def redGenerator) (simp add: red)
  ultimately have mem: "newColorModel ''#ff0000'' \<in> set (fst (getRandomPalette insertionSort g0 o0))"
    by (simp add: res set_sortBrightness p4_def set_insertionSort)
  have v: "hsv_v (hsv (newColorModel ''#ff0000'')) = 100" by (simp add: red)
  have "\<not> list_all (\<lambda>c. 0 \<le> hsv_v (hsv c) \<and> hsv_v (hsv c) \<le> 50) (fst (getRandomPalette insertionSort g0 o0))"
  proof
    assume "list_all (\<lambda>c. 0 \<le> hsv_v (hsv c) \<and> hsv_v (hsv c) \<le> 50) (fst (getRandomPalette insertionSort g0 o0))"
    with mem have "hsv_v (hsv (newColorModel ''#ff0000'')) \<le> 50"
      unfolding list_all_iff by blast
    with v show False by simp
  qed
  moreover have "getRandomPalette engine g (opts\<lparr>minBrightness := lo, maxBrightness := hi\<rparr>) =
     getRandomPalette engine g opts"
    by (simp add: getRandomPalette_def)
  ultimately show ?thesis using mem v unfolding g0_def o0_def by blast
qed

section \<open>The rejection loops\<close>







lemma acceptable_image:
  "acceptable band incl bc = int ` {i. i < length band \<and> \<not> (incl \<and> equals (band ! i) bc)}"
proof (rule set_eqI)
  fix i :: int
  show "i \<in> acceptable band incl bc \<longleftrightarrow> i \<in> int ` {i. i < length band \<and> \<not> (incl \<and> equals (band ! i) bc)}"
  proof
    assume a: "i \<in> acceptable band incl bc"
    then have "nat i < length band \<and> \<not> (incl \<and> equals (band ! nat i) bc)" "i = int (nat i)"
      by (auto simp: acceptable_def)
    then show "i \<in> int ` {i. i < length band \<and> \<not> (incl \<and> equals (band ! i) bc)}"
      by blast
  next
    assume "i \<in> int ` {i. i < length band \<and> \<not> (incl \<and> equals (band ! i) bc)}"
    then show "i \<in> acceptable band incl bc"
      by (auto simp: acceptable_def)
  qed
qed

lemma card_acceptable:
  "card (acceptable band incl bc) = length (filter (\<lambda>c. \<not> (incl \<and> equals c bc)) band)"
  unfolding acceptable_image
  by (simp add: card_image length_filter_conv_card)

lemma finite_acceptable: "finite (acceptable band incl bc)"
  unfolding acceptable_image by simp



lemma getRandomIndex_range:
  assumes "0 \<le> x" "x < 1" "band \<noteq> []"
  shows "0 \<le> getRandomIndex x band \<and> getRandomIndex x band < int (length band)"
proof -
  have L: "0 < real (length band)" using assms(3) by simp
  have "0 \<le> x * real (length band)" using assms(1) by simp
  moreover have "x * real (length band) < real (length band)"
    using assms(2) L by simp
  ultimately show ?thesis
    by (simp add: getRandomIndex_def Math_floor_def floor_less_iff)
qed

lemma iterations_le:
  "darkIterations f n \<le> length (darkPalette f)"
  "lightIterations f n \<le> length (lightPalette f)"
  "baseIterations f n \<le> length (basePalette f)"
  by (auto simp: darkIterations_def lightIterations_def baseIterations_def Let_def min_def)






lemma rand_constructorState: "rand (constructorState p) = param_rand p"
  by (simp add: constructorState_def Let_def split_def)






section \<open>A generator that always returns 0\<close>
















section \<open>A fair generator\<close>


section \<open>The base colour among the colours to draw\<close>

text \<open>
  With \<open>includeBaseColor\<close> the loops also reject the base colour, and a loop runs
  \<open>Math.min(band.length, ...)\<close> times: the count includes the base colour when the band
  holds it. A value \<open>pickIndex\<close> returns is a drawn index outside \<open>indexes\<close> whose colour
  is not the base colour, so a band with fewer colours other than the base colour than
  its loop has iterations is exhausted before the loop ends, and the next iteration
  draws for ever, whatever \<open>rand\<close> returns.
\<close>

lemma pickIndex_result:
  assumes "pickIndex rs band indexes incl bc n = Some r"
  shows "case r of
           Inl e \<Rightarrow> (\<exists>m\<ge>n. elemAt band (getRandomIndex (rs m) band) = None)
         | Inr (i, n') \<Rightarrow>
             i \<notin> set indexes \<and> (\<exists>m\<ge>n. i = getRandomIndex (rs m) band) \<and>
             (incl \<longrightarrow> (\<exists>c. elemAt band i = Some c \<and> \<not> equals c bc))"
proof (rule pickIndex.raw_induct
    [where P = "\<lambda>rs band indexes incl bc n r. case r of
           Inl e \<Rightarrow> (\<exists>m\<ge>n. elemAt band (getRandomIndex (rs m) band) = None)
         | Inr (i, n') \<Rightarrow>
             i \<notin> set indexes \<and> (\<exists>m\<ge>n. i = getRandomIndex (rs m) band) \<and>
             (incl \<longrightarrow> (\<exists>c. elemAt band i = Some c \<and> \<not> equals c bc))",
      OF _ assms], goal_cases)
  case (1 pick rs band indexes incl bc n r)
  let ?i = "getRandomIndex (rs n) band"
  have later: "case r of
           Inl e \<Rightarrow> (\<exists>m\<ge>n. elemAt band (getRandomIndex (rs m) band) = None)
         | Inr (i, n') \<Rightarrow>
             i \<notin> set indexes \<and> (\<exists>m\<ge>n. i = getRandomIndex (rs m) band) \<and>
             (incl \<longrightarrow> (\<exists>c. elemAt band i = Some c \<and> \<not> equals c bc))"
    if "pick rs band indexes incl bc (Suc n) = Some r"
  proof -
    from 1(1) [OF that] show ?thesis
      by (cases r) (auto intro: Suc_leD)
  qed
  show ?case
  proof (cases "?i \<in> set indexes")
    case True
    with 1(2) have "pick rs band indexes incl bc (Suc n) = Some r" by (simp add: Let_def)
    then show ?thesis by (rule later)
  next
    case out: False
    show ?thesis
    proof (cases incl)
      case False
      with out 1(2) have "r = Inr (?i, Suc n)" by (simp add: Let_def)
      with out False show ?thesis by auto
    next
      case True
      show ?thesis
      proof (cases "elemAt band ?i")
        case None
        with out True 1(2) have "r = Inl TypeError" by (simp add: Let_def)
        with None show ?thesis by auto
      next
        case (Some c)
        show ?thesis
        proof (cases "equals c bc")
          case True
          with out \<open>incl\<close> Some 1(2) have "pick rs band indexes incl bc (Suc n) = Some r"
            by (simp add: Let_def)
          then show ?thesis by (rule later)
        next
          case False
          with out \<open>incl\<close> Some 1(2) have "r = Inr (?i, Suc n)" by (simp add: Let_def)
          with out Some False show ?thesis by auto
        qed
      qed
    qed
  qed
qed

lemma sampleBand_exhausted:
  assumes range: "\<And>m. 0 \<le> getRandomIndex (rs m) band \<and> getRandomIndex (rs m) band < int (length band)"
    and "set indexes \<subseteq> acceptable band incl bc" "distinct indexes"
    and "card (acceptable band incl bc) < k + length indexes"
  shows "sampleBand rs band incl bc k indexes returned n = None"
  using assms(2-)
proof (induction k arbitrary: indexes returned n)
  case 0
  from 0(1) have "card (set indexes) \<le> card (acceptable band incl bc)"
    by (intro card_mono finite_acceptable)
  with 0(2) have "length indexes \<le> card (acceptable band incl bc)"
    by (simp add: distinct_card)
  with 0(3) show ?case by simp
next
  case (Suc k)
  show ?case
  proof (cases "pickIndex rs band indexes incl bc n")
    case None
    then show ?thesis by simp
  next
    case (Some r)
    note res = pickIndex_result [OF Some]
    show ?thesis
    proof (cases r)
      case (Inl e)
      with res obtain m where "elemAt band (getRandomIndex (rs m) band) = None" by auto
      with range [of m] show ?thesis by (simp add: elemAt_def)
    next
      case (Inr p)
      obtain i n' where p: "p = (i, n')" by (cases p)
      from res Inr p obtain m where i: "i \<notin> set indexes" "i = getRandomIndex (rs m) band"
        and e: "incl \<longrightarrow> (\<exists>c. elemAt band i = Some c \<and> \<not> equals c bc)"
        by auto
      from i(2) range [of m] have r: "0 \<le> i" "i < int (length band)" by simp_all
      then have el: "elemAt band i = Some (band ! nat i)" by (simp add: elemAt_def)
      with e r have acc: "i \<in> acceptable band incl bc" by (auto simp: acceptable_def)
      have "sampleBand rs band incl bc k (indexes @ [i]) (returned @ [band ! nat i]) n' = None"
        using Suc.prems i(1) acc by (intro Suc.IH) simp_all
      with Some Inr p el show ?thesis by simp
    qed
  qed
qed

lemma sampleBand_too_few_others:
  assumes rng: "\<forall>k. 0 \<le> rs k \<and> rs k < 1"
    and ne: "band \<noteq> []"
    and few: "length (others bc band) < k"
  shows "sampleBand rs band True bc k [] returned n = None"
proof (rule sampleBand_exhausted)
  show "0 \<le> getRandomIndex (rs m) band \<and> getRandomIndex (rs m) band < int (length band)" for m
    using rng ne getRandomIndex_range by blast
  show "set [] \<subseteq> acceptable band True bc" "distinct []" by simp_all
  show "card (acceptable band True bc) < k + length []"
    using few by (simp add: card_acceptable others_def)
qed

lemma distributed_too_few_others:
  assumes rng: "\<forall>k. 0 \<le> rand g k \<and> rand g k < 1"
    and incl: "includeBaseColor opts"
    and main: "\<not> int (length (saturationFiltered g opts)) \<le> targetLength opts + 1"
    and few: "length (others (baseColor g) (basePalette (saturationFiltered g opts)))
                < baseIterations (saturationFiltered g opts) (targetLength opts)"
  shows "getDistributedPalette engine g opts \<noteq> Some (Inr r)"
proof
  assume ret: "getDistributedPalette engine g opts = Some (Inr r)"
  define f where "f = saturationFiltered g opts"
  define n where "n = targetLength opts"
  have "baseIterations f n \<le> length (basePalette f)" by (rule iterations_le)
  with few have ne: "basePalette f \<noteq> []" by (auto simp: f_def n_def)
  have stuck: "sampleBand (rand g) (basePalette f) True (baseColor g) (baseIterations f n) [] returned k = None"
    for returned k
    using rng ne few unfolding f_def n_def by (rule sampleBand_too_few_others)
  from incl have iT: "includeBaseColor opts = True" by simp
  from ret main show False
    by (auto simp: getDistributedPalette_def Let_def f_def [symmetric] n_def [symmetric] iT stuck
        split: option.splits sum.splits prod.splits)
qed


lemma sampleBand_only_base_colour:
  assumes "\<forall>k. 0 \<le> rs k \<and> rs k < 1"
  shows "sampleBand rs [c] True c 1 [] returned n = None"
  using sampleBand_too_few_others [OF assms, of "[c]" c 1 returned n]
  by (simp add: others_def equals_def)

section \<open>What the two paths of \<open>getDistributedPalette\<close> and the bundled \<open>getRandomPalette\<close> keep\<close>

lemma length_slice0: "0 \<le> n \<Longrightarrow> int (length (slice0 xs n)) = min n (int (length xs))"
  by (auto simp: slice0_def min_def)

lemma distributed_fallback_size:
  assumes "\<And>rs n xs. length (fst (engine rs n xs)) = length xs"
    and "int (length (saturationFiltered g opts)) \<le> targetLength opts + 1"
    and "0 \<le> targetLength opts"
  shows "\<exists>pal g'. getDistributedPalette engine g opts = Some (Inr (pal, g')) \<and>
           int (length pal) = min (targetLength opts) (int (length (saturationFiltered g opts)))"
  using assms
  by (simp add: getDistributedPalette_def Let_def split_def length_slice0)

lemma sampleBand_keeps:
  "sampleBand rs band incl bc k indexes returned n = Some (Inr (returned', n')) \<Longrightarrow>
     set returned \<subseteq> set returned'"
proof (induction k arbitrary: indexes returned n)
  case 0
  then show ?case by simp
next
  case (Suc k)
  from Suc.prems obtain i m c where
    "sampleBand rs band incl bc k (indexes @ [i]) (returned @ [c]) m = Some (Inr (returned', n'))"
    by (auto split: option.splits sum.splits)
  from Suc.IH [OF this] show ?case by simp
qed

lemma distributed_main_keeps_seed:
  assumes "includeBaseColor opts"
    and "\<not> int (length (saturationFiltered g opts)) \<le> targetLength opts + 1"
    and "getDistributedPalette engine g opts = Some (Inr (pal, g'))"
  shows "baseColor g \<in> set pal"
proof -
  from assms obtain r1 k1 r2 k2 r3 k3 where
    s: "sampleBand (rand g) (darkPalette (saturationFiltered g opts)) True (baseColor g)
          (darkIterations (saturationFiltered g opts) (targetLength opts)) [] [baseColor g] (calls g)
          = Some (Inr (r1, k1))"
       "sampleBand (rand g) (lightPalette (saturationFiltered g opts)) True (baseColor g)
          (lightIterations (saturationFiltered g opts) (targetLength opts)) [] r1 k1
          = Some (Inr (r2, k2))"
       "sampleBand (rand g) (basePalette (saturationFiltered g opts)) True (baseColor g)
          (baseIterations (saturationFiltered g opts) (targetLength opts)) [] r2 k2
          = Some (Inr (r3, k3))"
    and p: "pal = (if sortByBrightness opts then sortBrightness r3 else r3)"
    by (auto simp: getDistributedPalette_def Let_def split: option.splits sum.splits)
  from sampleBand_keeps [OF s(1)] have "baseColor g \<in> set r1" by simp
  with sampleBand_keeps [OF s(2)] have "baseColor g \<in> set r2" by blast
  with sampleBand_keeps [OF s(3)] have "baseColor g \<in> set r3" by blast
  with p show ?thesis by (simp add: set_sortBrightness)
qed

lemma set_oddIndices: "set (oddIndices xs) \<subseteq> set xs"
  by (induction xs rule: oddIndices.induct) auto

lemma umd_within_bounds:
  assumes "\<And>rs n xs. set (fst (engine rs n xs)) \<subseteq> set xs"
    and "\<not> includeBaseColor opts"
  shows "list_all (\<lambda>c. minBrightness opts \<le> hsv_v (hsv c) \<and> hsv_v (hsv c) \<le> maxBrightness opts \<and>
                       minSaturation opts \<le> hsv_s (hsv c) \<and> hsv_s (hsv c) \<le> maxSaturation opts)
           (fst (getRandomPalette_umd engine g opts))"
proof -
  define p2 where "p2 = filter (\<lambda>c. hsv_s (hsv c) \<le> maxSaturation opts)
      (filter (\<lambda>c. hsv_s (hsv c) \<ge> minSaturation opts)
        (filter (\<lambda>c. hsv_v (hsv c) \<le> maxBrightness opts)
          (filter (\<lambda>c. hsv_v (hsv c) \<ge> minBrightness opts) (fullPalette g))))"
  define p3 where "p3 = (if filterPasses opts \<and> precision g > 2 then oddIndices (oddIndices p2) else p2)"
  define n where "n = (if len opts < 1 then 1 else len opts)"
  define p4 where "p4 = fst (engine (rand g) (calls g) p3)"
  have "set (oddIndices (oddIndices p2)) \<subseteq> set p2"
    using set_oddIndices [of "oddIndices p2"] set_oddIndices [of p2] by (rule subset_trans)
  then have "set p3 \<subseteq> set p2"
    unfolding p3_def by simp
  moreover have "set p4 \<subseteq> set p3"
    unfolding p4_def by (rule assms(1))
  moreover have "set (slice0 p4 n) \<subseteq> set p4" by (rule set_slice0)
  moreover have "fst (getRandomPalette_umd engine g opts) =
      (if sortByBrightness opts then sortBrightness (slice0 p4 n) else slice0 p4 n)"
    unfolding getRandomPalette_umd_def Let_def split_def p4_def p3_def p2_def n_def
    using assms(2) by simp
  then have "set (fst (getRandomPalette_umd engine g opts)) = set (slice0 p4 n)"
    by (simp add: set_sortBrightness)
  ultimately have "set (fst (getRandomPalette_umd engine g opts)) \<subseteq> set p2" by blast
  then show ?thesis
    unfolding list_all_iff p2_def by auto
qed

lemma source_within_saturation:
  assumes "\<And>rs n xs. set (fst (engine rs n xs)) \<subseteq> set xs"
    and "\<not> includeBaseColor opts"
  shows "list_all (\<lambda>c. minSaturation opts \<le> hsv_s (hsv c) \<and> hsv_s (hsv c) \<le> maxSaturation opts)
           (fst (getRandomPalette engine g opts))"
proof -
  define p2 where "p2 = filter (\<lambda>c. hsv_s (hsv c) \<le> maxSaturation opts)
      (filter (\<lambda>c. hsv_s (hsv c) \<ge> minSaturation opts) (fullPalette g))"
  define p3 where "p3 = (if filterPasses opts \<and> precision g > 2 then oddIndices (oddIndices p2) else p2)"
  define n where "n = (if len opts < 1 then 1 else len opts)"
  define p4 where "p4 = fst (engine (rand g) (calls g) p3)"
  have "set (oddIndices (oddIndices p2)) \<subseteq> set p2"
    using set_oddIndices [of "oddIndices p2"] set_oddIndices [of p2] by (rule subset_trans)
  then have "set p3 \<subseteq> set p2"
    unfolding p3_def by simp
  moreover have "set p4 \<subseteq> set p3"
    unfolding p4_def by (rule assms(1))
  moreover have "set (slice0 p4 n) \<subseteq> set p4" by (rule set_slice0)
  moreover have "fst (getRandomPalette engine g opts) =
      (if sortByBrightness opts then sortBrightness (slice0 p4 n) else slice0 p4 n)"
    unfolding getRandomPalette_def Let_def split_def p4_def p3_def p2_def n_def
    using assms(2) by simp
  then have "set (fst (getRandomPalette engine g opts)) = set (slice0 p4 n)"
    by (simp add: set_sortBrightness)
  ultimately have "set (fst (getRandomPalette engine g opts)) \<subseteq> set p2" by blast
  then show ?thesis
    unfolding list_all_iff p2_def by auto
qed

section \<open>Determinism\<close>

lemma generatePalettes_firstDraws:
  assumes "calls g + 10 \<le> N"
  shows "generatePalettes (g\<lparr>rand := firstDraws N (rand g)\<rparr>) = (generatePalettes g)\<lparr>rand := firstDraws N (rand g)\<rparr>"
  using assms
  by (simp add: generatePalettes_def generateDarkPalette_def generateLightPalette_def
      generateBasePalette_def Let_def firstDraws_def)

lemma constructorState_firstDraws:
  assumes "3 \<le> N"
  shows "constructorState (p\<lparr>param_rand := firstDraws N (param_rand p)\<rparr>) =
      (constructorState p)\<lparr>rand := firstDraws N (param_rand p)\<rparr>"
  using assms
  by (simp add: constructorState_def Let_def firstDraws_def split: option.split)

lemma calls_constructorState: "calls (constructorState p) \<le> 3"
  by (simp add: constructorState_def Let_def split_def split: option.split)

lemma new_firstDraws:
  "newColorPaletteGenerator (p\<lparr>param_rand := firstDraws 13 (param_rand p)\<rparr>) =
     (newColorPaletteGenerator p)\<lparr>rand := firstDraws 13 (param_rand p)\<rparr>"
proof -
  have "calls (constructorState p) + 10 \<le> 13" using calls_constructorState [of p] by simp
  from generatePalettes_firstDraws [OF this] show ?thesis
    by (simp add: newColorPaletteGenerator_def constructorState_firstDraws rand_constructorState)
qed

lemma params_firstDraws_eq:
  fixes p p' :: ColorPaletteParams
  assumes "param_precision p = param_precision p'" "param_hueRange p = param_hueRange p'"
    "param_baseColor p = param_baseColor p'" "param_baseSaturation p = param_baseSaturation p'"
    "\<forall>k<N. param_rand p k = param_rand p' k"
  shows "p\<lparr>param_rand := firstDraws N (param_rand p)\<rparr> = p'\<lparr>param_rand := firstDraws N (param_rand p')\<rparr>"
proof -
  have "firstDraws N (param_rand p) = firstDraws N (param_rand p')"
    using assms(5) by (auto simp: firstDraws_def fun_eq_iff)
  with assms(1-4) show ?thesis by (cases p; cases p') simp
qed

text \<open>
  Claim C1. Two generators built from the same precision, hue range, base colour and
  base saturation, with injected \<open>rand\<close> functions that return the same values, have the
  same base, light and dark palettes (the first 13 values of \<open>rand\<close> decide them), and
  \<open>getRandomPalette\<close> and \<open>getDistributedPalette\<close> give the same outcome on them, the
  generator left for the next call included.
\<close>

theorem generation_is_deterministic:
  "param_precision p = param_precision p' \<and> param_hueRange p = param_hueRange p' \<and>
   param_baseColor p = param_baseColor p' \<and> param_baseSaturation p = param_baseSaturation p' \<longrightarrow>
   ((\<forall>k<13. param_rand p k = param_rand p' k) \<longrightarrow>
      palettes (newColorPaletteGenerator p) = palettes (newColorPaletteGenerator p') \<and>
      baseColor (newColorPaletteGenerator p) = baseColor (newColorPaletteGenerator p') \<and>
      calls (newColorPaletteGenerator p) = calls (newColorPaletteGenerator p')) \<and>
   ((\<forall>k. param_rand p k = param_rand p' k) \<longrightarrow>
      newColorPaletteGenerator p = newColorPaletteGenerator p' \<and>
      getRandomPalette engine (newColorPaletteGenerator p) ropts =
        getRandomPalette engine (newColorPaletteGenerator p') ropts \<and>
      getDistributedPalette engine (newColorPaletteGenerator p) dopts =
        getDistributedPalette engine (newColorPaletteGenerator p') dopts)"
proof (intro impI conjI)
  assume cfg: "param_precision p = param_precision p' \<and> param_hueRange p = param_hueRange p' \<and>
   param_baseColor p = param_baseColor p' \<and> param_baseSaturation p = param_baseSaturation p'"
  {
    assume "\<forall>k<13. param_rand p k = param_rand p' k"
    with cfg have "p\<lparr>param_rand := firstDraws 13 (param_rand p)\<rparr> = p'\<lparr>param_rand := firstDraws 13 (param_rand p')\<rparr>"
      by (intro params_firstDraws_eq) simp_all
    then have e: "(newColorPaletteGenerator p)\<lparr>rand := firstDraws 13 (param_rand p)\<rparr> =
        (newColorPaletteGenerator p')\<lparr>rand := firstDraws 13 (param_rand p')\<rparr>"
      using new_firstDraws [of p] new_firstDraws [of p'] by simp
    from arg_cong [OF e, of palettes]
    show "palettes (newColorPaletteGenerator p) = palettes (newColorPaletteGenerator p')" by simp
    from arg_cong [OF e, of baseColor]
    show "baseColor (newColorPaletteGenerator p) = baseColor (newColorPaletteGenerator p')" by simp
    from arg_cong [OF e, of calls]
    show "calls (newColorPaletteGenerator p) = calls (newColorPaletteGenerator p')" by simp
  }
  {
    assume "\<forall>k. param_rand p k = param_rand p' k"
    then have "param_rand p = param_rand p'" by (simp add: fun_eq_iff)
    with cfg have "p = p'" by (cases p; cases p') simp
    then show "newColorPaletteGenerator p = newColorPaletteGenerator p'"
      and "getRandomPalette engine (newColorPaletteGenerator p) ropts =
        getRandomPalette engine (newColorPaletteGenerator p') ropts"
      and "getDistributedPalette engine (newColorPaletteGenerator p) dopts =
        getDistributedPalette engine (newColorPaletteGenerator p') dopts"
      by simp_all
  }
qed

theorem generation_is_deterministic_witness:
  "palettes (newColorPaletteGenerator redSeedParams) =
     palettes (newColorPaletteGenerator (redSeedParams\<lparr>param_rand := (\<lambda>k. if k < 13 then 0 else 1 / 2)\<rparr>)) \<and>
   getRandomPalette insertionSort (newColorPaletteGenerator (redSeedParams\<lparr>param_rand := cycle 9\<rparr>))
       defaultRandomOptions =
     getRandomPalette insertionSort
       (newColorPaletteGenerator (redSeedParams\<lparr>param_rand := (\<lambda>k. real (k mod 9) / 9)\<rparr>))
       defaultRandomOptions \<and>
   getDistributedPalette insertionSort (newColorPaletteGenerator (redSeedParams\<lparr>param_rand := cycle 9\<rparr>))
       defaultDistributedOptions =
     getDistributedPalette insertionSort
       (newColorPaletteGenerator (redSeedParams\<lparr>param_rand := (\<lambda>k. real (k mod 9) / 9)\<rparr>))
       defaultDistributedOptions"
proof -
  have a: "\<forall>k<13. param_rand redSeedParams k =
      param_rand (redSeedParams\<lparr>param_rand := (\<lambda>k. if k < 13 then 0 else 1 / 2)\<rparr>) k"
    by (simp add: redSeedParams_def)
  have b: "\<forall>k. param_rand (redSeedParams\<lparr>param_rand := cycle 9\<rparr>) k =
      param_rand (redSeedParams\<lparr>param_rand := (\<lambda>k. real (k mod 9) / 9)\<rparr>) k"
    by (simp add: cycle_def)
  from a generation_is_deterministic [of redSeedParams
      "redSeedParams\<lparr>param_rand := (\<lambda>k. if k < 13 then 0 else 1 / 2)\<rparr>"]
  have "palettes (newColorPaletteGenerator redSeedParams) =
     palettes (newColorPaletteGenerator (redSeedParams\<lparr>param_rand := (\<lambda>k. if k < 13 then 0 else 1 / 2)\<rparr>))"
    by simp
  moreover from b generation_is_deterministic [of "redSeedParams\<lparr>param_rand := cycle 9\<rparr>"
      "redSeedParams\<lparr>param_rand := (\<lambda>k. real (k mod 9) / 9)\<rparr>" insertionSort
      defaultRandomOptions defaultDistributedOptions]
  have "getRandomPalette insertionSort (newColorPaletteGenerator (redSeedParams\<lparr>param_rand := cycle 9\<rparr>))
       defaultRandomOptions =
     getRandomPalette insertionSort
       (newColorPaletteGenerator (redSeedParams\<lparr>param_rand := (\<lambda>k. real (k mod 9) / 9)\<rparr>))
       defaultRandomOptions \<and>
   getDistributedPalette insertionSort (newColorPaletteGenerator (redSeedParams\<lparr>param_rand := cycle 9\<rparr>))
       defaultDistributedOptions =
     getDistributedPalette insertionSort
       (newColorPaletteGenerator (redSeedParams\<lparr>param_rand := (\<lambda>k. real (k mod 9) / 9)\<rparr>))
       defaultDistributedOptions"
    by simp
  ultimately show ?thesis by blast
qed

end
